theory Spec2Isabelle
  imports Complex_Main
begin

section \<open>Python values and the interpreter operations the handler uses\<close>

text \<open>
  Every value the handler of \<^verbatim>\<open>rp_handler.py\<close> touches comes out of \<^verbatim>\<open>json.loads\<close>
  (the job, the backend's answers) or is built from such values, so a value is a JSON
  value. An object is an association list in insertion order; a Python dict holds each
  key once. A \<^verbatim>\<open>float\<close> is the rational it stands for (NaN and the infinities, which
  \<^verbatim>\<open>json.loads\<close> also accepts, are left out). A \<open>char\<close> stands for one code point.
\<close>

datatype json =
    JNull
  | JBool bool
  | JInt int
  | JFloat rat
  | JStr string
  | JArr "json list"
  | JObj "(string \<times> json) list"

text \<open>
  A fault is a raised exception. The two last constructors are the faults of the
  collaborators (\<^verbatim>\<open>requests\<close>, \<^verbatim>\<open>urllib\<close>, \<^verbatim>\<open>os\<close>, the storage upload): one of class
  \<^verbatim>\<open>requests.RequestException\<close>, or any other subclass of \<^verbatim>\<open>Exception\<close>; the string
  says which.
\<close>

datatype exn =
    TypeError
  | AttributeError
  | KeyError
  | IndexError
  | ValueError
  | OverflowError
  | JSONDecodeError
  | BinasciiError
  | RequestException string
  | OtherException string

text \<open>Truth value testing: \<^verbatim>\<open>if x:\<close>, \<^verbatim>\<open>not x\<close>, \<^verbatim>\<open>a and b\<close>.\<close>

fun truthy :: "json \<Rightarrow> bool" where
  "truthy JNull = False"
| "truthy (JBool b) = b"
| "truthy (JInt i) = (i \<noteq> 0)"
| "truthy (JFloat r) = (r \<noteq> 0)"
| "truthy (JStr s) = (s \<noteq> [])"
| "truthy (JArr xs) = (xs \<noteq> [])"
| "truthy (JObj kvs) = (kvs \<noteq> [])"

fun num_val :: "json \<Rightarrow> rat option" where
  "num_val (JBool b) = Some (if b then 1 else 0)"
| "num_val (JInt i) = Some (of_int i)"
| "num_val (JFloat r) = Some r"
| "num_val _ = None"

text \<open>
  \<^verbatim>\<open>x == y\<close>: numbers (booleans among them) compare by value, lists element by
  element, dicts key by key whatever their order.
\<close>

fun py_eq :: "json \<Rightarrow> json \<Rightarrow> bool" where
  "py_eq JNull y = (y = JNull)"
| "py_eq (JStr s) y = (y = JStr s)"
| "py_eq (JArr xs) y = (case y of JArr ys \<Rightarrow> list_all2 py_eq xs ys | _ \<Rightarrow> False)"
| "py_eq (JObj kvs) y =
     (case y of
        JObj kvs' \<Rightarrow>
          length kvs = length kvs' \<and>
          list_all (\<lambda>(k, v). case map_of kvs' k of None \<Rightarrow> False | Some v' \<Rightarrow> py_eq v v') kvs
      | _ \<Rightarrow> False)"
| "py_eq x y = (case num_val y of None \<Rightarrow> False | Some b \<Rightarrow> num_val x = Some b)"

fun hashable :: "json \<Rightarrow> bool" where
  "hashable (JArr xs) = False"
| "hashable (JObj kvs) = False"
| "hashable _ = True"

fun starts_with :: "string \<Rightarrow> string \<Rightarrow> bool" where
  "starts_with [] s = True"
| "starts_with (c # p) [] = False"
| "starts_with (c # p) (d # s) = (c = d \<and> starts_with p s)"

fun str_contains :: "string \<Rightarrow> string \<Rightarrow> bool" where
  "str_contains p [] = (p = [])"
| "str_contains p (c # s) = (starts_with p (c # s) \<or> str_contains p s)"

text \<open>
  \<^verbatim>\<open>item in container\<close>: key membership in a dict (an unhashable item raises),
  element equality in a list, substring in a str (a left operand that is no str
  raises); any other container is not iterable.
\<close>

fun py_in :: "json \<Rightarrow> json \<Rightarrow> exn + bool" where
  "py_in item (JObj kvs) =
     (if hashable item
      then Inr (case item of JStr k \<Rightarrow> k \<in> set (map fst kvs) | _ \<Rightarrow> False)
      else Inl TypeError)"
| "py_in item (JArr xs) = Inr (list_ex (\<lambda>x. py_eq x item) xs)"
| "py_in item (JStr s) = (case item of JStr p \<Rightarrow> Inr (str_contains p s) | _ \<Rightarrow> Inl TypeError)"
| "py_in item _ = Inl TypeError"

fun as_index :: "json \<Rightarrow> int option" where
  "as_index (JInt i) = Some i"
| "as_index (JBool b) = Some (if b then 1 else 0)"
| "as_index _ = None"

text \<open>
  Indexing a sequence by an integer: a negative index counts from the end, an index
  outside the sequence raises IndexError.
\<close>

definition py_index :: "'a list \<Rightarrow> int \<Rightarrow> exn + 'a" where
  "py_index xs i =
     (if 0 \<le> i \<and> i < int (length xs) then Inr (xs ! nat i)
      else if i < 0 \<and> - int (length xs) \<le> i then Inr (xs ! nat (int (length xs) + i))
      else Inl IndexError)"

text \<open>\<^verbatim>\<open>container[key]\<close>.\<close>

fun py_getitem :: "json \<Rightarrow> json \<Rightarrow> exn + json" where
  "py_getitem (JObj kvs) key =
     (if hashable key
      then (case key of
              JStr k \<Rightarrow> (case map_of kvs k of None \<Rightarrow> Inl KeyError | Some v \<Rightarrow> Inr v)
            | _ \<Rightarrow> Inl KeyError)
      else Inl TypeError)"
| "py_getitem (JArr xs) key =
     (case as_index key of None \<Rightarrow> Inl TypeError | Some i \<Rightarrow> py_index xs i)"
| "py_getitem (JStr s) key =
     (case as_index key of
        None \<Rightarrow> Inl TypeError
      | Some i \<Rightarrow> (case py_index s i of Inl e \<Rightarrow> Inl e | Inr c \<Rightarrow> Inr (JStr [c])))"
| "py_getitem _ key = Inl TypeError"

text \<open>\<^verbatim>\<open>obj.get(key)\<close> with a str key: only a dict has the method.\<close>

fun py_get :: "json \<Rightarrow> string \<Rightarrow> exn + json" where
  "py_get (JObj kvs) k = Inr (case map_of kvs k of None \<Rightarrow> JNull | Some v \<Rightarrow> v)"
| "py_get _ k = Inl AttributeError"

text \<open>\<^verbatim>\<open>obj.items()\<close>.\<close>

fun py_items :: "json \<Rightarrow> exn + (string \<times> json) list" where
  "py_items (JObj kvs) = Inr kvs"
| "py_items _ = Inl AttributeError"

text \<open>\<^verbatim>\<open>for x in obj\<close>: the elements of a list, the keys of a dict, the characters of a str.\<close>

fun py_iter :: "json \<Rightarrow> exn + json list" where
  "py_iter (JArr xs) = Inr xs"
| "py_iter (JObj kvs) = Inr (map (\<lambda>kv. JStr (fst kv)) kvs)"
| "py_iter (JStr s) = Inr (map (\<lambda>c. JStr [c]) s)"
| "py_iter _ = Inl TypeError"

text \<open>Storing a key in a dict: an existing key keeps its place, a new one goes last.\<close>

fun dict_set :: "string \<Rightarrow> json \<Rightarrow> (string \<times> json) list \<Rightarrow> (string \<times> json) list" where
  "dict_set k v [] = [(k, v)]"
| "dict_set k v ((k', v') # kvs) = (if k' = k then (k, v) # kvs else (k', v') # dict_set k v kvs)"

text \<open>
  \<^verbatim>\<open>os.path.join(a, b)\<close> and \<^verbatim>\<open>os.path.dirname(p)\<close> of \<^verbatim>\<open>posixpath\<close> (the worker runs on
  Linux); an argument of \<^verbatim>\<open>join\<close> that is no str raises TypeError.
\<close>

definition posix_join :: "string \<Rightarrow> string \<Rightarrow> string" where
  "posix_join a b =
     (if starts_with ''/'' b then b
      else if a = [] \<or> last a = CHR ''/'' then a @ b
      else a @ ''/'' @ b)"

fun os_path_join :: "json \<Rightarrow> json \<Rightarrow> exn + string" where
  "os_path_join (JStr a) (JStr b) = Inr (posix_join a b)"
| "os_path_join _ _ = Inl TypeError"

definition posix_dirname :: "string \<Rightarrow> string" where
  "posix_dirname p =
     (let head = rev (dropWhile (\<lambda>c. c \<noteq> CHR ''/'') (rev p))
      in if head \<noteq> [] \<and> head \<noteq> replicate (length head) (CHR ''/'')
         then rev (dropWhile (\<lambda>c. c = CHR ''/'') (rev head))
         else head)"

section \<open>The collaborators and the configuration\<close>

text \<open>
  What the handler calls and does not define: the library functions whose result
  depends on the outside world or on the interpreter's version. A call that raises
  returns \<open>Inl\<close>. The HTTP answers are indexed by the number of the attempt within the
  loop that makes them, so a backend may answer each attempt differently. The
  filesystem does not change while one job is processed.
\<close>

record env =
  json_loads :: "string \<Rightarrow> exn + json"
  b64decode :: "json \<Rightarrow> exn + string"
  str_of :: "json \<Rightarrow> string"
  str_exn :: "exn \<Rightarrow> string"
  requests_get :: "nat \<Rightarrow> string \<Rightarrow> exn + int"
  requests_post :: "nat \<Rightarrow> json \<Rightarrow> string \<Rightarrow> exn + (int \<times> string)"
  urlopen_prompt :: "json \<Rightarrow> exn + string"
  urlopen_history :: "nat \<Rightarrow> json \<Rightarrow> exn + string"
  fs_exists :: "string \<Rightarrow> bool"
  fd_exists :: "int \<Rightarrow> exn + bool"
  os_listdir :: "string \<Rightarrow> exn + unit"
  os_getsize :: "string \<Rightarrow> exn + unit"
  rp_upload_image :: "json \<Rightarrow> string \<Rightarrow> exn + string"

text \<open>The module constants read from the process environment when the module loads.\<close>

record config =
  COMFY_POLLING_INTERVAL_MS :: int
  COMFY_POLLING_MAX_RETRIES :: int
  REFRESH_WORKER :: bool
  COMFY_OUTPUT_PATH :: string

definition COMFY_API_AVAILABLE_INTERVAL_MS :: int where
  "COMFY_API_AVAILABLE_INTERVAL_MS = 50"

definition COMFY_API_AVAILABLE_MAX_RETRIES :: int where
  "COMFY_API_AVAILABLE_MAX_RETRIES = 500"

definition COMFY_HOST :: string where
  "COMFY_HOST = ''127.0.0.1:8188''"

text \<open>
  Every call that leaves the process is written to a log, oldest first, which each
  effectful function takes and returns. \<^verbatim>\<open>print\<close> is not an event.
\<close>

datatype event =
    HttpGet string
  | Sleep int
  | HttpPostImage json
  | HttpPostPrompt json
  | HttpGetHistory json
  | FsExists json
  | FsListdir string
  | FsGetsize string
  | StorageUpload json string

text \<open>An f-string field: a str is itself, any other value is what \<^verbatim>\<open>str\<close> makes of it.\<close>

fun fmt :: "env \<Rightarrow> json \<Rightarrow> string" where
  "fmt E (JStr s) = s"
| "fmt E v = str_of E v"

text \<open>
  \<^verbatim>\<open>time.sleep(ms / 1000)\<close>: a negative length raises ValueError. CPython keeps the
  length as a signed 64-bit count of nanoseconds, so a length of \<open>2^63\<close> nanoseconds
  or more, that is more than \<open>SLEEP_MAX_MS\<close> milliseconds, raises OverflowError.
\<close>

definition SLEEP_MAX_MS :: int where
  "SLEEP_MAX_MS = 9223372036854"

definition time_sleep :: "int \<Rightarrow> event list \<Rightarrow> (exn + unit) \<times> event list" where
  "time_sleep ms evs =
     (if ms < 0 then (Inl ValueError, evs)
      else if SLEEP_MAX_MS < ms then (Inl OverflowError, evs)
      else (Inr (), evs @ [Sleep ms]))"

text \<open>
  \<^verbatim>\<open>os.path.exists(p)\<close>: a str is looked up on disk, an int (or bool) is a file
  descriptor, anything else raises TypeError.
\<close>

definition os_path_exists :: "env \<Rightarrow> json \<Rightarrow> event list \<Rightarrow> (exn + bool) \<times> event list" where
  "os_path_exists E p evs =
     (case p of
        JStr s \<Rightarrow> (Inr (fs_exists E s), evs @ [FsExists p])
      | JInt i \<Rightarrow> (fd_exists E i, evs @ [FsExists p])
      | JBool b \<Rightarrow> (fd_exists E (if b then 1 else 0), evs @ [FsExists p])
      | _ \<Rightarrow> (Inl TypeError, evs))"

section \<open>validate\_input\<close>

fun all_name_image :: "json list \<Rightarrow> exn + bool" where
  "all_name_image [] = Inr True"
| "all_name_image (img # rest) =
     (case py_in (JStr ''name'') img of
        Inl e \<Rightarrow> Inl e
      | Inr has_name \<Rightarrow>
          if \<not> has_name then Inr False
          else (case py_in (JStr ''image'') img of
                  Inl e \<Rightarrow> Inl e
                | Inr has_image \<Rightarrow> if \<not> has_image then Inr False else all_name_image rest))"

text \<open>
  The result is the pair \<^verbatim>\<open>(validated_data, error_message)\<close> of the source; \<open>Inl\<close> is a
  fault that leaves \<^verbatim>\<open>validate_input\<close>.
\<close>

definition validate_parsed :: "json \<Rightarrow> exn + (json \<times> json)" where
  "validate_parsed job_input =
     (case py_get job_input ''workflow'' of
        Inl e \<Rightarrow> Inl e
      | Inr workflow \<Rightarrow>
          if workflow = JNull then Inr (JNull, JStr ''Missing 'workflow' parameter'')
          else (case py_get job_input ''images'' of
                  Inl e \<Rightarrow> Inl e
                | Inr images \<Rightarrow>
                    if images \<noteq> JNull
                    then (case images of
                            JArr xs \<Rightarrow>
                              (case all_name_image xs of
                                 Inl e \<Rightarrow> Inl e
                               | Inr ok \<Rightarrow>
                                   if \<not> ok
                                   then Inr (JNull, JStr '''images' must be a list of objects with 'name' and 'image' keys'')
                                   else Inr (JObj [(''workflow'', workflow), (''images'', images)], JNull))
                          | _ \<Rightarrow> Inr (JNull, JStr '''images' must be a list of objects with 'name' and 'image' keys''))
                    else Inr (JObj [(''workflow'', workflow), (''images'', images)], JNull)))"

definition validate_input :: "env \<Rightarrow> json \<Rightarrow> exn + (json \<times> json)" where
  "validate_input E job_input =
     (if job_input = JNull then Inr (JNull, JStr ''Please provide input'')
      else (case job_input of
              JStr s \<Rightarrow>
                (case json_loads E s of
                   Inl e \<Rightarrow>
                     if e = JSONDecodeError then Inr (JNull, JStr ''Invalid JSON format in input'')
                     else Inl e
                 | Inr parsed \<Rightarrow> validate_parsed parsed)
            | _ \<Rightarrow> validate_parsed job_input))"

section \<open>check\_server\<close>

fun is_request_exception :: "exn \<Rightarrow> bool" where
  "is_request_exception (RequestException m) = True"
| "is_request_exception _ = False"

text \<open>
  The body of \<^verbatim>\<open>for i in range(retries)\<close>: \<open>i\<close> is the loop variable, \<open>k\<close> the number of
  iterations left.
\<close>

fun check_server_loop ::
  "env \<Rightarrow> string \<Rightarrow> int \<Rightarrow> nat \<Rightarrow> nat \<Rightarrow> event list \<Rightarrow> (exn + bool) \<times> event list" where
  "check_server_loop E url delay i 0 evs = (Inr False, evs)"
| "check_server_loop E url delay i (Suc k) evs =
     (let evs1 = evs @ [HttpGet url] in
      case requests_get E i url of
        Inr status_code \<Rightarrow>
          if status_code = 200 then (Inr True, evs1)
          else (case time_sleep delay evs1 of
                  (Inl e, evs2) \<Rightarrow> (Inl e, evs2)
                | (Inr u, evs2) \<Rightarrow> check_server_loop E url delay (Suc i) k evs2)
      | Inl e \<Rightarrow>
          if is_request_exception e
          then (case time_sleep delay evs1 of
                  (Inl e', evs2) \<Rightarrow> (Inl e', evs2)
                | (Inr u, evs2) \<Rightarrow> check_server_loop E url delay (Suc i) k evs2)
          else (Inl e, evs1))"

definition check_server ::
  "env \<Rightarrow> string \<Rightarrow> int \<Rightarrow> int \<Rightarrow> event list \<Rightarrow> (exn + bool) \<times> event list" where
  "check_server E url retries delay evs = check_server_loop E url delay 0 (nat retries) evs"

section \<open>upload\_images\<close>

text \<open>
  The body of \<^verbatim>\<open>for image in images\<close>: \<open>i\<close> counts the POSTs made so far, \<open>responses\<close>
  and \<open>upload_errors\<close> are the two lists the source appends to.
\<close>

fun upload_loop ::
  "env \<Rightarrow> json list \<Rightarrow> nat \<Rightarrow> json list \<Rightarrow> json list \<Rightarrow> event list \<Rightarrow>
   (exn + (json list \<times> json list)) \<times> event list" where
  "upload_loop E [] i responses upload_errors evs = (Inr (responses, upload_errors), evs)"
| "upload_loop E (img # rest) i responses upload_errors evs =
     (case py_getitem img (JStr ''name'') of
        Inl e \<Rightarrow> (Inl e, evs)
      | Inr name \<Rightarrow>
          (case py_getitem img (JStr ''image'') of
             Inl e \<Rightarrow> (Inl e, evs)
           | Inr image_data \<Rightarrow>
               (case b64decode E image_data of
                  Inl e \<Rightarrow> (Inl e, evs)
                | Inr blob \<Rightarrow>
                    (let evs1 = evs @ [HttpPostImage name] in
                     case requests_post E i name blob of
                       Inl e \<Rightarrow> (Inl e, evs1)
                     | Inr (status_code, text) \<Rightarrow>
                         if status_code \<noteq> 200
                         then upload_loop E rest (Suc i) responses
                                (upload_errors @ [JStr (''Error uploading '' @ fmt E name @ '': '' @ text)]) evs1
                         else upload_loop E rest (Suc i)
                                (responses @ [JStr (''Successfully uploaded '' @ fmt E name)])
                                upload_errors evs1))))"

definition upload_images :: "env \<Rightarrow> json \<Rightarrow> event list \<Rightarrow> (exn + json) \<times> event list" where
  "upload_images E images evs =
     (if \<not> truthy images
      then (Inr (JObj [(''status'', JStr ''success''),
                       (''message'', JStr ''No images to upload''),
                       (''details'', JArr [])]), evs)
      else (case py_iter images of
              Inl e \<Rightarrow> (Inl e, evs)
            | Inr xs \<Rightarrow>
                (case upload_loop E xs 0 [] [] evs of
                   (Inl e, evs1) \<Rightarrow> (Inl e, evs1)
                 | (Inr (responses, upload_errors), evs1) \<Rightarrow>
                     if upload_errors \<noteq> []
                     then (Inr (JObj [(''status'', JStr ''error''),
                                      (''message'', JStr ''Some images failed to upload''),
                                      (''details'', JArr upload_errors)]), evs1)
                     else (Inr (JObj [(''status'', JStr ''success''),
                                      (''message'', JStr ''All images uploaded successfully''),
                                      (''details'', JArr responses)]), evs1))))"

section \<open>queue\_workflow and get\_history\<close>

definition queue_workflow :: "env \<Rightarrow> json \<Rightarrow> event list \<Rightarrow> (exn + json) \<times> event list" where
  "queue_workflow E workflow evs =
     (let evs1 = evs @ [HttpPostPrompt workflow] in
      case urlopen_prompt E workflow of
        Inl e \<Rightarrow> (Inl e, evs1)
      | Inr body \<Rightarrow> (json_loads E body, evs1))"

text \<open>\<open>n\<close> is the number of history fetches made before this one.\<close>

definition get_history :: "env \<Rightarrow> nat \<Rightarrow> json \<Rightarrow> event list \<Rightarrow> (exn + json) \<times> event list" where
  "get_history E n prompt_id evs =
     (let evs1 = evs @ [HttpGetHistory prompt_id] in
      case urlopen_history E n prompt_id of
        Inl e \<Rightarrow> (Inl e, evs1)
      | Inr body \<Rightarrow> (json_loads E body, evs1))"

section \<open>process\_output\_files\<close>

text \<open>
  One pass of \<^verbatim>\<open>for image in node_output["images"]\<close> (and of the loop over
  \<^verbatim>\<open>"gifs"\<close>, which has the same body): the pair is \<^verbatim>\<open>(output_file, full_path)\<close>.
\<close>

fun scan_entries :: "json list \<Rightarrow> json \<times> json \<Rightarrow> exn + (json \<times> json)" where
  "scan_entries [] cand = Inr cand"
| "scan_entries (img # rest) cand =
     (case py_getitem img (JStr ''subfolder'') of
        Inl e \<Rightarrow> Inl e
      | Inr subfolder \<Rightarrow>
          (case py_getitem img (JStr ''filename'') of
             Inl e \<Rightarrow> Inl e
           | Inr filename \<Rightarrow>
               (case os_path_join subfolder filename of
                  Inl e \<Rightarrow> Inl e
                | Inr output_file \<Rightarrow>
                    (case py_get img ''fullpath'' of
                       Inl e \<Rightarrow> Inl e
                     | Inr full_path \<Rightarrow> scan_entries rest (JStr output_file, full_path)))))"

definition scan_key :: "string \<Rightarrow> json \<Rightarrow> json \<times> json \<Rightarrow> exn + (json \<times> json)" where
  "scan_key key node_output cand =
     (case py_in (JStr key) node_output of
        Inl e \<Rightarrow> Inl e
      | Inr present \<Rightarrow>
          if present
          then (case py_getitem node_output (JStr key) of
                  Inl e \<Rightarrow> Inl e
                | Inr entries \<Rightarrow>
                    (case py_iter entries of
                       Inl e \<Rightarrow> Inl e
                     | Inr xs \<Rightarrow> scan_entries xs cand))
          else Inr cand)"

text \<open>The body of \<^verbatim>\<open>for node_id, node_output in outputs.items()\<close>.\<close>

fun scan_nodes :: "(string \<times> json) list \<Rightarrow> json \<times> json \<Rightarrow> exn + (json \<times> json)" where
  "scan_nodes [] cand = Inr cand"
| "scan_nodes ((node_id, node_output) # rest) cand =
     (case scan_key ''images'' node_output cand of
        Inl e \<Rightarrow> Inl e
      | Inr cand1 \<Rightarrow>
          (case scan_key ''gifs'' node_output cand1 of
             Inl e \<Rightarrow> Inl e
           | Inr cand2 \<Rightarrow> scan_nodes rest cand2))"

definition scan_outputs :: "json \<Rightarrow> exn + (json \<times> json)" where
  "scan_outputs outputs =
     (case py_items outputs of
        Inl e \<Rightarrow> Inl e
      | Inr items \<Rightarrow> scan_nodes items (JNull, JNull))"

text \<open>
  Lines 255 to 260: which path is kept, given the constructed path and the path the
  backend reported.
\<close>

definition choose_path ::
  "env \<Rightarrow> string \<Rightarrow> json \<Rightarrow> event list \<Rightarrow> (exn + json) \<times> event list" where
  "choose_path E local_file_path full_path evs =
     (case (if truthy full_path then os_path_exists E full_path evs else (Inr False, evs)) of
        (Inl e, evs1) \<Rightarrow> (Inl e, evs1)
      | (Inr use_full, evs1) \<Rightarrow>
          if use_full then (Inr full_path, evs1)
          else (case os_path_exists E (JStr local_file_path) evs1 of
                  (Inl e, evs2) \<Rightarrow> (Inl e, evs2)
                | (Inr constructed_exists, evs2) \<Rightarrow>
                    if \<not> constructed_exists then (Inr full_path, evs2)
                    else (Inr (JStr local_file_path), evs2)))"

text \<open>
  Lines 262 to 289: the directory listing, the existence test and the upload.
  \<^verbatim>\<open>os.path.dirname\<close> raises TypeError on a path that is no str, so everything after
  it runs on a str.
\<close>

definition deliver_file ::
  "env \<Rightarrow> json \<Rightarrow> json \<Rightarrow> event list \<Rightarrow> (exn + json) \<times> event list" where
  "deliver_file E job_id local_file_path evs =
     (case local_file_path of
        JStr path \<Rightarrow>
          (let dir_path = posix_dirname path;
               evs1 = evs @ [FsExists (JStr dir_path)] in
           case (if fs_exists E dir_path
                 then (os_listdir E dir_path, evs1 @ [FsListdir dir_path])
                 else (Inr (), evs1)) of
             (Inl e, evs2) \<Rightarrow> (Inl e, evs2)
           | (Inr u, evs2) \<Rightarrow>
               (let evs3 = evs2 @ [FsExists (JStr path)] in
                if fs_exists E path
                then (case os_getsize E path of
                        Inl e \<Rightarrow> (Inl e, evs3 @ [FsGetsize path])
                      | Inr u' \<Rightarrow>
                          (let evs4 = evs3 @ [FsGetsize path, StorageUpload job_id path] in
                           case rp_upload_image E job_id path of
                             Inl e \<Rightarrow> (Inl e, evs4)
                           | Inr file_url \<Rightarrow>
                               (Inr (JObj [(''status'', JStr ''success''),
                                           (''message'', JStr file_url)]), evs4)))
                else (Inr (JObj [(''status'', JStr ''error''),
                                 (''message'', JStr (''the file does not exist in the specified output folder: '' @ path))]),
                      evs3)))
      | _ \<Rightarrow> (Inl TypeError, evs))"

definition process_output_files ::
  "env \<Rightarrow> config \<Rightarrow> json \<Rightarrow> json \<Rightarrow> event list \<Rightarrow> (exn + json) \<times> event list" where
  "process_output_files E cfg outputs job_id evs =
     (case scan_outputs outputs of
        Inl e \<Rightarrow> (Inl e, evs)
      | Inr (output_file, full_path) \<Rightarrow>
          if output_file = JNull
          then (Inr (JObj [(''status'', JStr ''error''),
                           (''message'', JStr ''No output file found in the generation results'')]), evs)
          else (case choose_path E (COMFY_OUTPUT_PATH cfg @ ''/'' @ fmt E output_file) full_path evs of
                  (Inl e, evs1) \<Rightarrow> (Inl e, evs1)
                | (Inr local_file_path, evs1) \<Rightarrow> deliver_file E job_id local_file_path evs1))"

section \<open>handler\<close>

text \<open>
  The test of the polling loop,
  \<^verbatim>\<open>prompt_id in history and history[prompt_id].get("outputs")\<close>.
\<close>

definition history_ready :: "json \<Rightarrow> json \<Rightarrow> exn + bool" where
  "history_ready prompt_id history =
     (case py_in prompt_id history of
        Inl e \<Rightarrow> Inl e
      | Inr present \<Rightarrow>
          if \<not> present then Inr False
          else (case py_getitem history prompt_id of
                  Inl e \<Rightarrow> Inl e
                | Inr record \<Rightarrow>
                    (case py_get record ''outputs'' of
                       Inl e \<Rightarrow> Inl e
                     | Inr outputs \<Rightarrow> Inr (truthy outputs))))"

text \<open>
  The \<^verbatim>\<open>while retries < COMFY_POLLING_MAX_RETRIES ... else\<close> loop of lines 341 to 352.
  \<open>Inr (Some history)\<close> is the \<^verbatim>\<open>break\<close>, \<open>Inr None\<close> the \<^verbatim>\<open>else\<close> branch taken when the
  condition fails, \<open>Inl\<close> a fault inside the \<^verbatim>\<open>try\<close>.
\<close>

function poll ::
  "env \<Rightarrow> config \<Rightarrow> json \<Rightarrow> int \<Rightarrow> event list \<Rightarrow> (exn + json option) \<times> event list" where
  "poll E cfg prompt_id retries evs =
     (if retries < COMFY_POLLING_MAX_RETRIES cfg
      then (case get_history E (nat retries) prompt_id evs of
              (Inl e, evs1) \<Rightarrow> (Inl e, evs1)
            | (Inr history, evs1) \<Rightarrow>
                (case history_ready prompt_id history of
                   Inl e \<Rightarrow> (Inl e, evs1)
                 | Inr ready \<Rightarrow>
                     if ready then (Inr (Some history), evs1)
                     else (case time_sleep (COMFY_POLLING_INTERVAL_MS cfg) evs1 of
                             (Inl e, evs2) \<Rightarrow> (Inl e, evs2)
                           | (Inr u, evs2) \<Rightarrow> poll E cfg prompt_id (retries + 1) evs2)))
      else (Inr None, evs))"
  by pat_completeness auto
termination
  by (relation "measure (\<lambda>(E, cfg, prompt_id, retries, evs). nat (COMFY_POLLING_MAX_RETRIES cfg - retries))") auto

declare poll.simps [simp del]

text \<open>Lines 329 to 335: the \<^verbatim>\<open>try\<close> around the submission; the result is \<open>prompt_id\<close>.\<close>

definition submit :: "env \<Rightarrow> json \<Rightarrow> event list \<Rightarrow> (exn + json) \<times> event list" where
  "submit E workflow evs =
     (case queue_workflow E workflow evs of
        (Inl e, evs1) \<Rightarrow> (Inl e, evs1)
      | (Inr queued_workflow, evs1) \<Rightarrow> (py_getitem queued_workflow (JStr ''prompt_id''), evs1))"

text \<open>Lines 356 to 361, reached after the \<^verbatim>\<open>break\<close>.\<close>

definition finish ::
  "env \<Rightarrow> config \<Rightarrow> json \<Rightarrow> json \<Rightarrow> json \<Rightarrow> event list \<Rightarrow> (exn + json) \<times> event list" where
  "finish E cfg job prompt_id history evs =
     (case py_getitem history prompt_id of
        Inl e \<Rightarrow> (Inl e, evs)
      | Inr record \<Rightarrow>
          (case py_get record ''outputs'' of
             Inl e \<Rightarrow> (Inl e, evs)
           | Inr outputs \<Rightarrow>
               (case py_getitem job (JStr ''id'') of
                  Inl e \<Rightarrow> (Inl e, evs)
                | Inr job_id \<Rightarrow>
                    (case process_output_files E cfg outputs job_id evs of
                       (Inl e, evs1) \<Rightarrow> (Inl e, evs1)
                     | (Inr images_result, evs1) \<Rightarrow>
                         (case images_result of
                            JObj kvs \<Rightarrow>
                              (Inr (JObj (dict_set ''refresh_worker'' (JBool (REFRESH_WORKER cfg)) kvs)), evs1)
                          | _ \<Rightarrow> (Inl TypeError, evs1))))))"

text \<open>
  Lines 339 to 354, the completion poller: \<open>Inr history\<close> when the loop is left by
  \<^verbatim>\<open>break\<close>, \<open>Inl result\<close> when the handler returns \<open>result\<close> from inside it.
\<close>

definition await_outputs ::
  "env \<Rightarrow> config \<Rightarrow> json \<Rightarrow> event list \<Rightarrow> (json + json) \<times> event list" where
  "await_outputs E cfg prompt_id evs =
     (case poll E cfg prompt_id 0 evs of
        (Inl e, evs1) \<Rightarrow>
          (Inl (JObj [(''error'', JStr (''Error waiting for image generation: '' @ str_exn E e))]), evs1)
      | (Inr None, evs1) \<Rightarrow>
          (Inl (JObj [(''error'', JStr ''Max retries reached while waiting for image generation'')]), evs1)
      | (Inr (Some history), evs1) \<Rightarrow> (Inr history, evs1))"

text \<open>Lines 323 to 361: everything after the availability probe.\<close>

definition continue_job ::
  "env \<Rightarrow> config \<Rightarrow> json \<Rightarrow> json \<Rightarrow> json \<Rightarrow> event list \<Rightarrow> (exn + json) \<times> event list" where
  "continue_job E cfg job workflow images evs =
     (case upload_images E images evs of
        (Inl e, evs1) \<Rightarrow> (Inl e, evs1)
      | (Inr upload_result, evs1) \<Rightarrow>
          (case py_getitem upload_result (JStr ''status'') of
             Inl e \<Rightarrow> (Inl e, evs1)
           | Inr status \<Rightarrow>
               if py_eq status (JStr ''error'') then (Inr upload_result, evs1)
               else (case submit E workflow evs1 of
                       (Inl e, evs2) \<Rightarrow>
                         (Inr (JObj [(''error'', JStr (''Error queuing workflow: '' @ str_exn E e))]), evs2)
                     | (Inr prompt_id, evs2) \<Rightarrow>
                         (case await_outputs E cfg prompt_id evs2 of
                            (Inl result, evs3) \<Rightarrow> (Inr result, evs3)
                          | (Inr history, evs3) \<Rightarrow> finish E cfg job prompt_id history evs3))))"

text \<open>
  Lines 316 to 361: everything after a successful validation. The value
  \<^verbatim>\<open>check_server\<close> returns is not bound to a name in the source.
\<close>

definition run_job ::
  "env \<Rightarrow> config \<Rightarrow> json \<Rightarrow> json \<Rightarrow> json \<Rightarrow> event list \<Rightarrow> (exn + json) \<times> event list" where
  "run_job E cfg job workflow images evs =
     (case check_server E (''http://'' @ COMFY_HOST) COMFY_API_AVAILABLE_MAX_RETRIES
             COMFY_API_AVAILABLE_INTERVAL_MS evs of
        (Inl e, evs1) \<Rightarrow> (Inl e, evs1)
      | (Inr reachable, evs1) \<Rightarrow> continue_job E cfg job workflow images evs1)"

definition handler :: "env \<Rightarrow> config \<Rightarrow> json \<Rightarrow> event list \<Rightarrow> (exn + json) \<times> event list" where
  "handler E cfg job evs =
     (case py_getitem job (JStr ''input'') of
        Inl e \<Rightarrow> (Inl e, evs)
      | Inr job_input \<Rightarrow>
          (case validate_input E job_input of
             Inl e \<Rightarrow> (Inl e, evs)
           | Inr (validated_data, error_message) \<Rightarrow>
               if truthy error_message then (Inr (JObj [(''error'', error_message)]), evs)
               else (case py_getitem validated_data (JStr ''workflow'') of
                       Inl e \<Rightarrow> (Inl e, evs)
                     | Inr workflow \<Rightarrow>
                         (case py_get validated_data ''images'' of
                            Inl e \<Rightarrow> (Inl e, evs)
                          | Inr images \<Rightarrow> run_job E cfg job workflow images evs))))"

section \<open>Vocabulary of the properties\<close>

text \<open>
  An availability attempt that is not a success: a status other than 200, or a
  transport exception of \<^verbatim>\<open>requests\<close>.
\<close>

definition probe_not_ready :: "exn + int \<Rightarrow> bool" where
  "probe_not_ready r = (case r of Inr status_code \<Rightarrow> status_code \<noteq> 200 | Inl e \<Rightarrow> is_request_exception e)"





text \<open>
  What becomes of one image sent as POST number \<open>i\<close>: a fault (a missing field, a
  payload that does not decode, a transport fault of the POST), or the image's name
  with the status code and the text of the response.
\<close>

definition upload_answer :: "env \<Rightarrow> nat \<Rightarrow> json \<Rightarrow> exn + (json \<times> int \<times> string)" where
  "upload_answer E i img =
     (case py_getitem img (JStr ''name'') of
        Inl e \<Rightarrow> Inl e
      | Inr name \<Rightarrow>
          (case py_getitem img (JStr ''image'') of
             Inl e \<Rightarrow> Inl e
           | Inr image_data \<Rightarrow>
               (case b64decode E image_data of
                  Inl e \<Rightarrow> Inl e
                | Inr blob \<Rightarrow>
                    (case requests_post E i name blob of
                       Inl e \<Rightarrow> Inl e
                     | Inr (status_code, text) \<Rightarrow> Inr (name, status_code, text)))))"

primrec upload_answers :: "env \<Rightarrow> nat \<Rightarrow> json list \<Rightarrow> (exn + (json \<times> int \<times> string)) list" where
  "upload_answers E i [] = []"
| "upload_answers E i (img # rest) = upload_answer E i img # upload_answers E (Suc i) rest"

definition upload_failed :: "json \<times> int \<times> string \<Rightarrow> bool" where
  "upload_failed a = (fst (snd a) \<noteq> 200)"

definition upload_passed :: "json \<times> int \<times> string \<Rightarrow> bool" where
  "upload_passed a = (fst (snd a) = 200)"

definition success_line :: "env \<Rightarrow> json \<times> int \<times> string \<Rightarrow> json" where
  "success_line E a = JStr (''Successfully uploaded '' @ fmt E (fst a))"

definition error_line :: "env \<Rightarrow> json \<times> int \<times> string \<Rightarrow> json" where
  "error_line E a = JStr (''Error uploading '' @ fmt E (fst a) @ '': '' @ snd (snd a))"

text \<open>
  The outputs mapping as the data model has it: every node output is a mapping whose
  \<^verbatim>\<open>images\<close> and \<^verbatim>\<open>gifs\<close> fields, where present, are lists of entries, an entry being a
  mapping with a str \<^verbatim>\<open>subfolder\<close> and a str \<^verbatim>\<open>filename\<close>.
\<close>

fun is_str :: "json \<Rightarrow> bool" where
  "is_str (JStr s) = True"
| "is_str _ = False"

fun is_bool :: "json \<Rightarrow> bool" where
  "is_bool (JBool b) = True"
| "is_bool _ = False"

definition str_field :: "(string \<times> json) list \<Rightarrow> string \<Rightarrow> bool" where
  "str_field kvs key = (case map_of kvs key of None \<Rightarrow> False | Some v \<Rightarrow> is_str v)"

fun wf_entry :: "json \<Rightarrow> bool" where
  "wf_entry (JObj kvs) = (str_field kvs ''subfolder'' \<and> str_field kvs ''filename'')"
| "wf_entry _ = False"

fun is_entry_list :: "json \<Rightarrow> bool" where
  "is_entry_list (JArr es) = list_all wf_entry es"
| "is_entry_list _ = False"

definition wf_field :: "string \<Rightarrow> (string \<times> json) list \<Rightarrow> bool" where
  "wf_field key kvs = (case map_of kvs key of None \<Rightarrow> True | Some v \<Rightarrow> is_entry_list v)"

fun wf_node :: "json \<Rightarrow> bool" where
  "wf_node (JObj kvs) = (wf_field ''images'' kvs \<and> wf_field ''gifs'' kvs)"
| "wf_node _ = False"

text \<open>
  The entries in the order the claim gives: node by node in mapping order, within a
  node those under \<^verbatim>\<open>images\<close> before those under \<^verbatim>\<open>gifs\<close>.
\<close>

fun list_items :: "json \<Rightarrow> json list" where
  "list_items (JArr es) = es"
| "list_items _ = []"

fun entries_under :: "string \<Rightarrow> json \<Rightarrow> json list" where
  "entries_under key (JObj kvs) = (case map_of kvs key of None \<Rightarrow> [] | Some v \<Rightarrow> list_items v)"
| "entries_under key _ = []"

definition entries_in_order :: "(string \<times> json) list \<Rightarrow> json list" where
  "entries_in_order nodes =
     concat (map (\<lambda>kv. entries_under ''images'' (snd kv) @ entries_under ''gifs'' (snd kv)) nodes)"

text \<open>The candidate an entry stands for: its joined path and its optional full path.\<close>

definition candidate_of :: "json \<Rightarrow> json \<times> json" where
  "candidate_of e =
     (case e of
        JObj kvs \<Rightarrow>
          (case map_of kvs ''subfolder'' of
             Some (JStr a) \<Rightarrow>
               (case map_of kvs ''filename'' of
                  Some (JStr b) \<Rightarrow>
                    (JStr (posix_join a b),
                     case map_of kvs ''fullpath'' of None \<Rightarrow> JNull | Some v \<Rightarrow> v)
                | _ \<Rightarrow> (JNull, JNull))
           | _ \<Rightarrow> (JNull, JNull))
      | _ \<Rightarrow> (JNull, JNull))"

definition last_candidate :: "json list \<Rightarrow> json \<times> json \<Rightarrow> json \<times> json" where
  "last_candidate es cand = (if es = [] then cand else candidate_of (last es))"

text \<open>
  The shapes of a job result: \<^verbatim>\<open>{status, message, refresh_worker}\<close>, \<^verbatim>\<open>{error}\<close>, and the
  upload outcome \<^verbatim>\<open>{status: "error", message, details}\<close> that \<^verbatim>\<open>upload_images\<close> builds
  when an upload failed.
\<close>

fun final_shape :: "json \<Rightarrow> bool" where
  "final_shape (JObj [(k1, s), (k2, m), (k3, b)]) =
     (k1 = ''status'' \<and> (s = JStr ''success'' \<or> s = JStr ''error'') \<and>
      k2 = ''message'' \<and> is_str m \<and> k3 = ''refresh_worker'' \<and> is_bool b)"
| "final_shape _ = False"

fun error_shape :: "json \<Rightarrow> bool" where
  "error_shape (JObj [(k, v)]) = (k = ''error'' \<and> is_str v)"
| "error_shape _ = False"

fun upload_error_shape :: "json \<Rightarrow> bool" where
  "upload_error_shape (JObj [(k1, s), (k2, m), (k3, JArr ds)]) =
     (k1 = ''status'' \<and> s = JStr ''error'' \<and>
      k2 = ''message'' \<and> m = JStr ''Some images failed to upload'' \<and>
      k3 = ''details'' \<and> ds \<noteq> [] \<and> list_all is_str ds)"
| "upload_error_shape _ = False"

text \<open>
  The image upload outcome of a job: what \<^verbatim>\<open>upload_images\<close> returns at line 324, with
  the log at that point, when the handler gets that far and the call returns; and
  the test of line 326 on an outcome.
\<close>

definition upload_outcome :: "env \<Rightarrow> json \<Rightarrow> event list \<Rightarrow> (json \<times> event list) option" where
  "upload_outcome E job evs =
     (case py_getitem job (JStr ''input'') of
        Inl e \<Rightarrow> None
      | Inr job_input \<Rightarrow>
          (case validate_input E job_input of
             Inl e \<Rightarrow> None
           | Inr (validated_data, error_message) \<Rightarrow>
               if truthy error_message then None
               else (case py_getitem validated_data (JStr ''workflow'') of
                       Inl e \<Rightarrow> None
                     | Inr workflow \<Rightarrow>
                         (case py_get validated_data ''images'' of
                            Inl e \<Rightarrow> None
                          | Inr images \<Rightarrow>
                              (case check_server E (''http://'' @ COMFY_HOST)
                                      COMFY_API_AVAILABLE_MAX_RETRIES
                                      COMFY_API_AVAILABLE_INTERVAL_MS evs of
                                 (Inl e, evs1) \<Rightarrow> None
                               | (Inr reachable, evs1) \<Rightarrow>
                                   (case upload_images E images evs1 of
                                      (Inl e, evs2) \<Rightarrow> None
                                    | (Inr upload_result, evs2) \<Rightarrow> Some (upload_result, evs2)))))))"

definition has_status_error :: "json \<Rightarrow> bool" where
  "has_status_error upload_result =
     (case py_getitem upload_result (JStr ''status'') of
        Inl e \<Rightarrow> False
      | Inr status \<Rightarrow> py_eq status (JStr ''error''))"

definition upload_reports_error :: "env \<Rightarrow> json \<Rightarrow> event list \<Rightarrow> bool" where
  "upload_reports_error E job evs =
     (case upload_outcome E job evs of
        None \<Rightarrow> False
      | Some (upload_result, evs1) \<Rightarrow> has_status_error upload_result)"

section \<open>A sample backend\<close>

text \<open>
  A concrete world to run the model in: \<^verbatim>\<open>json.loads\<close> on the few texts the sample
  backend sends, \<^verbatim>\<open>base64.b64decode\<close> on two payloads (\<^verbatim>\<open>"AAAA"\<close> is three zero
  bytes, \<^verbatim>\<open>"abc"\<close> has incorrect padding and raises \<^verbatim>\<open>binascii.Error\<close>), a backend
  that is up at once, accepts every image, queues the workflow as \<^verbatim>\<open>p1\<close> and reports
  its outputs at the third history fetch, and a disk that holds the generated file.
\<close>

definition ready_body :: string where
  \<open>ready_body = ''{"p1": {"outputs": {"9": {"images": [{"filename": "out.png", "subfolder": "", "type": "output"}]}}}}''\<close>

definition ready_outputs :: json where
  "ready_outputs =
     JObj [(''9'', JObj [(''images'',
       JArr [JObj [(''filename'', JStr ''out.png''), (''subfolder'', JStr []), (''type'', JStr ''output'')]])])]"

definition ready_history :: json where
  "ready_history = JObj [(''p1'', JObj [(''outputs'', ready_outputs)])]"

definition sample_loads :: "string \<Rightarrow> exn + json" where
  \<open>sample_loads s =
     (if s = ''[]'' then Inr (JArr [])
      else if s = ''5'' then Inr (JInt 5)
      else if s = ''{}'' then Inr (JObj [])
      else if s = ''{"prompt_id": "p1"}'' then Inr (JObj [(''prompt_id'', JStr ''p1'')])
      else if s = ready_body then Inr ready_history
      else Inl JSONDecodeError)\<close>

definition sample_b64decode :: "json \<Rightarrow> exn + string" where
  "sample_b64decode v =
     (case v of
        JStr s \<Rightarrow>
          if s = ''AAAA'' then Inr [CHR 0x00, CHR 0x00, CHR 0x00]
          else if s = [] then Inr []
          else Inl BinasciiError
      | _ \<Rightarrow> Inl TypeError)"

definition sample_env :: env where
  \<open>sample_env =
     \<lparr> json_loads = sample_loads,
       b64decode = sample_b64decode,
       str_of = (\<lambda>v. ''<value>''),
       str_exn = (\<lambda>e. ''<fault>''),
       requests_get = (\<lambda>i url. Inr 200),
       requests_post = (\<lambda>i name blob. Inr (200, ''{}'')),
       urlopen_prompt = (\<lambda>workflow. Inr ''{"prompt_id": "p1"}''),
       urlopen_history = (\<lambda>n prompt_id. Inr (if n < 2 then ''{}'' else ready_body)),
       fs_exists = (\<lambda>p. p = ''/comfyui/output'' \<or> p = ''/comfyui/output/out.png''),
       fd_exists = (\<lambda>i. Inr False),
       os_listdir = (\<lambda>p. Inr ()),
       os_getsize = (\<lambda>p. Inr ()),
       rp_upload_image = (\<lambda>job_id path. Inr ''https://bucket.example/job-1/out.png'') \<rparr>\<close>

text \<open>
  Variations: a backend that never comes up, one that comes up at the third attempt,
  one that never finishes, one that refuses every image and one that refuses the
  second image.
\<close>

definition down_env :: env where
  "down_env = sample_env\<lparr>requests_get := (\<lambda>i url. Inl (RequestException ''connection refused''))\<rparr>"

definition waking_env :: env where
  "waking_env =
     sample_env\<lparr>requests_get :=
       (\<lambda>i url. if i = 0 then Inl (RequestException ''connection refused'')
                 else if i = 1 then Inr 503 else Inr 200)\<rparr>"


definition refusing_env :: env where
  "refusing_env = sample_env\<lparr>requests_post := (\<lambda>i name blob. Inr (500, ''disk full''))\<rparr>"

definition picky_env :: env where
  "picky_env =
     sample_env\<lparr>requests_post :=
       (\<lambda>i name blob. if i = 1 then Inr (500, ''disk full'') else Inr (200, ''{}''))\<rparr>"

definition two_images :: "json list" where
  "two_images =
     [JObj [(''name'', JStr ''a.png''), (''image'', JStr ''AAAA'')],
      JObj [(''name'', JStr ''b.png''), (''image'', JStr ''AAAA'')]]"

text \<open>
  Outputs of two nodes with three entries, the last of them a video with a full
  path, and outputs with no image or video entry.
\<close>

definition mixed_outputs :: "(string \<times> json) list" where
  "mixed_outputs =
     [(''3'', JObj [(''images'', JArr [JObj [(''filename'', JStr ''a.png''), (''subfolder'', JStr [])]]),
                    (''gifs'', JArr [JObj [(''filename'', JStr ''b.gif''), (''subfolder'', JStr ''clips'')]])]),
      (''9'', JObj [(''gifs'', JArr [JObj [(''filename'', JStr ''c.mp4''), (''subfolder'', JStr ''clips''),
                                          (''fullpath'', JStr ''/data/clips/c.mp4'')]])])]"

definition text_outputs :: "(string \<times> json) list" where
  "text_outputs = [(''5'', JObj [(''text'', JArr [JStr ''done''])])]"

definition sample_cfg :: config where
  "sample_cfg =
     \<lparr> COMFY_POLLING_INTERVAL_MS = 30000,
       COMFY_POLLING_MAX_RETRIES = 3,
       REFRESH_WORKER = False,
       COMFY_OUTPUT_PATH = ''/comfyui/output'' \<rparr>"



definition sample_job :: "json \<Rightarrow> json" where
  "sample_job job_input = JObj [(''id'', JStr ''job-1''), (''input'', job_input)]"

section \<open>The validator\<close>

lemma validate_parsed_non_mapping:
  "\<forall>kvs. v \<noteq> JObj kvs \<Longrightarrow> validate_parsed v = Inl AttributeError"
  by (cases v) (simp_all add: validate_parsed_def)

text \<open>
  Claim C10. The pair \<^verbatim>\<open>(value, error)\<close> is returned only for an input that is null, a
  str or a mapping. Any other input (a list, a number, a boolean) leaves
  \<^verbatim>\<open>validate_input\<close> as an AttributeError, raised by \<^verbatim>\<open>job_input.get("workflow")\<close>, and so
  does a str whose JSON text parses to anything but a mapping.
\<close>

theorem validate_input_faults_on_non_mapping:
  "(\<forall>v. v \<noteq> JNull \<and> (\<forall>s. v \<noteq> JStr s) \<and> (\<forall>kvs. v \<noteq> JObj kvs)
        \<longrightarrow> validate_input E v = Inl AttributeError) \<and>
   (\<forall>s parsed. json_loads E s = Inr parsed \<and> (\<forall>kvs. parsed \<noteq> JObj kvs)
        \<longrightarrow> validate_input E (JStr s) = Inl AttributeError)"
proof (intro conjI allI impI)
  fix v :: json
  assume a: "v \<noteq> JNull \<and> (\<forall>s. v \<noteq> JStr s) \<and> (\<forall>kvs. v \<noteq> JObj kvs)"
  then have "validate_parsed v = Inl AttributeError"
    by (simp add: validate_parsed_non_mapping)
  with a show "validate_input E v = Inl AttributeError"
    by (cases v) (simp_all add: validate_input_def)
next
  fix s parsed
  assume a: "json_loads E s = Inr parsed \<and> (\<forall>kvs. parsed \<noteq> JObj kvs)"
  then have "validate_parsed parsed = Inl AttributeError"
    by (simp add: validate_parsed_non_mapping)
  with a show "validate_input E (JStr s) = Inl AttributeError"
    by (simp add: validate_input_def)
qed

theorem validate_input_faults_on_non_mapping_witness:
  "validate_input sample_env (JArr [JInt 1]) = Inl AttributeError \<and>
   validate_input sample_env (JInt 7) = Inl AttributeError \<and>
   json_loads sample_env ''[]'' = Inr (JArr []) \<and>
   validate_input sample_env (JStr ''[]'') = Inl AttributeError \<and>
   json_loads sample_env ''5'' = Inr (JInt 5) \<and>
   validate_input sample_env (JStr ''5'') = Inl AttributeError"
proof -
  have l1: "json_loads sample_env ''[]'' = Inr (JArr [])"
    by (simp add: sample_env_def sample_loads_def)
  have l2: "json_loads sample_env ''5'' = Inr (JInt 5)"
    by (simp add: sample_env_def sample_loads_def)
  note t = validate_input_faults_on_non_mapping [of sample_env]
  from t have "validate_input sample_env (JArr [JInt 1]) = Inl AttributeError" by simp
  moreover from t have "validate_input sample_env (JInt 7) = Inl AttributeError" by simp
  moreover from t l1 have "validate_input sample_env (JStr ''[]'') = Inl AttributeError" by blast
  moreover from t l2 have "validate_input sample_env (JStr ''5'') = Inl AttributeError" by blast
  ultimately show ?thesis using l1 l2 by simp
qed

text \<open>The rejections that do return the pair, and the handler's answer to a missing workflow.\<close>

lemma validate_input_rejections:
  "validate_input E JNull = Inr (JNull, JStr ''Please provide input'')"
  "json_loads E s = Inl JSONDecodeError \<Longrightarrow>
     validate_input E (JStr s) = Inr (JNull, JStr ''Invalid JSON format in input'')"
  "map_of kvs ''workflow'' = None \<or> map_of kvs ''workflow'' = Some JNull \<Longrightarrow>
     validate_input E (JObj kvs) = Inr (JNull, JStr ''Missing 'workflow' parameter'')"
  "map_of kvs ''workflow'' = Some w \<Longrightarrow> w \<noteq> JNull \<Longrightarrow> map_of kvs ''images'' = Some i \<Longrightarrow>
     i \<noteq> JNull \<Longrightarrow> \<forall>xs. i \<noteq> JArr xs \<Longrightarrow>
     validate_input E (JObj kvs) =
       Inr (JNull, JStr '''images' must be a list of objects with 'name' and 'image' keys'')"
     apply (simp add: validate_input_def)
    apply (simp add: validate_input_def)
   apply (auto simp: validate_input_def validate_parsed_def)[1]
  apply (cases i; simp add: validate_input_def validate_parsed_def)
  done

lemma handler_missing_workflow:
  "map_of kvs ''workflow'' = None \<or> map_of kvs ''workflow'' = Some JNull \<Longrightarrow>
   handler E cfg (sample_job (JObj kvs)) evs =
     (Inr (JObj [(''error'', JStr ''Missing 'workflow' parameter'')]), evs)"
  by (simp add: handler_def sample_job_def validate_input_rejections(3))

text \<open>
  Claim C8. The claim has validation return \<^verbatim>\<open>(None, error)\<close> whenever a present
  \<^verbatim>\<open>images\<close> field is not a sequence of elements each carrying \<^verbatim>\<open>name\<close> and \<^verbatim>\<open>image\<close>. On the
  input \<^verbatim>\<open>{"workflow": {"3": {}}, "images": [5]}\<close> the code does not return: the test
  \<^verbatim>\<open>"name" in image\<close> raises TypeError on the number, and the fault leaves the handler
  before any HTTP call.
\<close>

theorem validate_input_images_of_numbers_faults:
  "validate_input E (JObj [(''workflow'', JObj [(''3'', JObj [])]), (''images'', JArr [JInt 5])])
     = Inl TypeError \<and>
   handler E cfg (sample_job (JObj [(''workflow'', JObj [(''3'', JObj [])]), (''images'', JArr [JInt 5])])) evs
     = (Inl TypeError, evs)"
  by (simp add: validate_input_def validate_parsed_def handler_def sample_job_def)

section \<open>The image uploader\<close>

text \<open>
  Claim C7. For null and for empty \<^verbatim>\<open>images\<close>, \<^verbatim>\<open>upload_images\<close> returns the success
  outcome with the message \<^verbatim>\<open>No images to upload\<close> and empty \<^verbatim>\<open>details\<close>, and the log it
  returns is the log it was given: no HTTP request is made.
\<close>

theorem upload_images_no_images:
  "upload_images E JNull evs =
     (Inr (JObj [(''status'', JStr ''success''), (''message'', JStr ''No images to upload''),
                 (''details'', JArr [])]), evs) \<and>
   upload_images E (JArr []) evs =
     (Inr (JObj [(''status'', JStr ''success''), (''message'', JStr ''No images to upload''),
                 (''details'', JArr [])]), evs)"
  by (simp add: upload_images_def)

text \<open>
  Claim C4. The claim has every error surface as a string in a returned dictionary.
  A job whose image payload \<^verbatim>\<open>"abc"\<close> is not valid base64 ends otherwise: the
  \<^verbatim>\<open>binascii.Error\<close> of \<^verbatim>\<open>base64.b64decode\<close> is raised inside \<^verbatim>\<open>upload_images\<close>, which the
  handler calls outside any \<^verbatim>\<open>try\<close>, and leaves the handler after the availability probe.
\<close>

theorem handler_decode_fault_escapes:
  "handler sample_env sample_cfg
     (sample_job (JObj [(''workflow'', JObj [(''3'', JObj [])]),
                        (''images'', JArr [JObj [(''name'', JStr ''a.png''), (''image'', JStr ''abc'')]])])) []
   = (Inl BinasciiError, [HttpGet ''http://127.0.0.1:8188''])"
  by code_simp

section \<open>The output resolver\<close>

text \<open>
  The path choice for a full path that is a str and for one that is None, and what
  the delivery makes of each.
\<close>

lemma choose_path_str:
  "choose_path E c (JStr f) evs =
     (if f \<noteq> [] \<and> fs_exists E f then (Inr (JStr f), evs @ [FsExists (JStr f)])
      else if \<not> fs_exists E c
      then (Inr (JStr f), (if f \<noteq> [] then evs @ [FsExists (JStr f)] else evs) @ [FsExists (JStr c)])
      else (Inr (JStr c), (if f \<noteq> [] then evs @ [FsExists (JStr f)] else evs) @ [FsExists (JStr c)]))"
  by (simp add: choose_path_def os_path_exists_def)

lemma choose_path_none:
  "choose_path E c JNull evs =
     (if fs_exists E c then Inr (JStr c) else Inr JNull, evs @ [FsExists (JStr c)])"
  by (simp add: choose_path_def os_path_exists_def)

lemma deliver_file_none: "deliver_file E job_id JNull evs = (Inl TypeError, evs)"
  by (simp add: deliver_file_def)

lemma deliver_file_missing:
  "\<not> fs_exists E f \<Longrightarrow> \<not> fs_exists E (posix_dirname f) \<Longrightarrow>
   deliver_file E job_id (JStr f) evs =
     (Inr (JObj [(''status'', JStr ''error''),
                 (''message'', JStr (''the file does not exist in the specified output folder: '' @ f))]),
      evs @ [FsExists (JStr (posix_dirname f)), FsExists (JStr f)])"
  by (simp add: deliver_file_def Let_def)

text \<open>
  Claim C2. The claim has the resolver fall back to the backend's path, even when it
  is None, and then return the file-does-not-exist payload. With the usual image
  entry, which carries no \<^verbatim>\<open>fullpath\<close>, and a constructed path that is not on disk,
  \<^verbatim>\<open>local_file_path\<close> becomes None and \<^verbatim>\<open>os.path.dirname(None)\<close> raises TypeError: no
  payload is returned.
\<close>

theorem process_output_files_missing_fullpath_faults:
  "process_output_files (sample_env\<lparr>fs_exists := (\<lambda>p. False)\<rparr>) sample_cfg ready_outputs (JStr ''job-1'') []
   = (Inl TypeError, [FsExists (JStr ''/comfyui/output/out.png'')])"
  by code_simp

section \<open>The availability probe\<close>

lemma check_server_loop_exhausted:
  "0 \<le> delay \<and> delay \<le> SLEEP_MAX_MS \<Longrightarrow> (\<forall>j<k. probe_not_ready (requests_get E (i + j) url)) \<Longrightarrow>
   check_server_loop E url delay i k evs =
     (Inr False, evs @ concat (replicate k [HttpGet url, Sleep delay]))"
proof (induction k arbitrary: i evs)
  case 0
  then show ?case by simp
next
  case (Suc k)
  from Suc.prems(2) have here: "probe_not_ready (requests_get E i url)"
    by (metis add.right_neutral zero_less_Suc)
  have rest: "\<forall>j<k. probe_not_ready (requests_get E (Suc i + j) url)"
    using Suc.prems(2) by (metis Suc_less_eq add_Suc_shift)
  have step: "check_server_loop E url delay i (Suc k) evs =
      check_server_loop E url delay (Suc i) k (evs @ [HttpGet url, Sleep delay])"
    using here Suc.prems(1)
    by (cases "requests_get E i url") (simp_all add: probe_not_ready_def time_sleep_def)
  show ?case
    unfolding step using Suc.IH [OF Suc.prems(1) rest] by simp
qed

lemma check_server_loop_first_success:
  "0 \<le> delay \<and> delay \<le> SLEEP_MAX_MS \<Longrightarrow> m < k \<Longrightarrow> (\<forall>j<m. probe_not_ready (requests_get E (i + j) url)) \<Longrightarrow>
   requests_get E (i + m) url = Inr 200 \<Longrightarrow>
   check_server_loop E url delay i k evs =
     (Inr True, evs @ concat (replicate m [HttpGet url, Sleep delay]) @ [HttpGet url])"
proof (induction m arbitrary: i k evs)
  case 0
  then obtain k' where k: "k = Suc k'" by (cases k) auto
  from 0 show ?case unfolding k by simp
next
  case (Suc m)
  then obtain k' where k: "k = Suc k'" by (cases k) auto
  from Suc.prems(3) have here: "probe_not_ready (requests_get E i url)"
    by (metis add.right_neutral zero_less_Suc)
  have rest: "\<forall>j<m. probe_not_ready (requests_get E (Suc i + j) url)"
    using Suc.prems(3) by (metis Suc_less_eq add_Suc_shift)
  have ok: "requests_get E (Suc i + m) url = Inr 200"
    using Suc.prems(4) by simp
  have lt: "m < k'" using Suc.prems(2) k by simp
  have step: "check_server_loop E url delay i (Suc k') evs =
      check_server_loop E url delay (Suc i) k' (evs @ [HttpGet url, Sleep delay])"
    using here Suc.prems(1)
    by (cases "requests_get E i url") (simp_all add: probe_not_ready_def time_sleep_def)
  show ?case
    unfolding k step using Suc.IH [OF Suc.prems(1) lt rest ok] by simp
qed

text \<open>
  Claim C9. With a delay that \<^verbatim>\<open>time.sleep\<close> accepts (the handler passes 50),
  \<^verbatim>\<open>check_server\<close> returns True at the
  first attempt whose GET answers 200, having made one GET per attempt and slept after
  each attempt that failed; an attempt that raises a \<^verbatim>\<open>requests.RequestException\<close>
  counts as one that failed and the loop goes on; when every attempt fails it returns
  False after \<open>retries\<close> attempts. The handler does not look at the value returned:
  whatever it is, the job goes on with the image upload and the submission.
\<close>

theorem check_server_probe:
  assumes "0 \<le> delay \<and> delay \<le> SLEEP_MAX_MS"
  shows "(\<forall>k. k < nat retries \<and> (\<forall>j<k. probe_not_ready (requests_get E j url)) \<and>
              requests_get E k url = Inr 200
            \<longrightarrow> check_server E url retries delay evs =
                  (Inr True, evs @ concat (replicate k [HttpGet url, Sleep delay]) @ [HttpGet url])) \<and>
         ((\<forall>j<nat retries. probe_not_ready (requests_get E j url))
            \<longrightarrow> check_server E url retries delay evs =
                  (Inr False, evs @ concat (replicate (nat retries) [HttpGet url, Sleep delay]))) \<and>
         (\<forall>m. probe_not_ready (Inl (RequestException m))) \<and>
         (\<forall>b evs1. check_server E (''http://'' @ COMFY_HOST) COMFY_API_AVAILABLE_MAX_RETRIES
                      COMFY_API_AVAILABLE_INTERVAL_MS evsa = (Inr b, evs1)
            \<longrightarrow> run_job E cfg job workflow images evsa = continue_job E cfg job workflow images evs1)"
proof (intro conjI allI impI)
  fix k
  assume a: "k < nat retries \<and> (\<forall>j<k. probe_not_ready (requests_get E j url)) \<and>
             requests_get E k url = Inr 200"
  then show "check_server E url retries delay evs =
      (Inr True, evs @ concat (replicate k [HttpGet url, Sleep delay]) @ [HttpGet url])"
    unfolding check_server_def
    using check_server_loop_first_success [OF assms, of k "nat retries" E 0 url evs] by simp
next
  assume "\<forall>j<nat retries. probe_not_ready (requests_get E j url)"
  then show "check_server E url retries delay evs =
      (Inr False, evs @ concat (replicate (nat retries) [HttpGet url, Sleep delay]))"
    unfolding check_server_def
    using check_server_loop_exhausted [OF assms, of "nat retries" E 0 url evs] by simp
next
  fix m show "probe_not_ready (Inl (RequestException m))"
    by (simp add: probe_not_ready_def)
next
  fix b evs1
  assume "check_server E (''http://'' @ COMFY_HOST) COMFY_API_AVAILABLE_MAX_RETRIES
            COMFY_API_AVAILABLE_INTERVAL_MS evsa = (Inr b, evs1)"
  then show "run_job E cfg job workflow images evsa = continue_job E cfg job workflow images evs1"
    by (simp add: run_job_def)
qed

lemma continue_job_down_env:
  "continue_job down_env sample_cfg (sample_job JNull) (JObj []) JNull evs =
     (Inr (JObj [(''status'', JStr ''success''),
                 (''message'', JStr ''https://bucket.example/job-1/out.png''),
                 (''refresh_worker'', JBool False)]),
      evs @ [HttpPostPrompt (JObj []),
       HttpGetHistory (JStr ''p1''), Sleep 30000, HttpGetHistory (JStr ''p1''), Sleep 30000,
       HttpGetHistory (JStr ''p1''),
       FsExists (JStr ''/comfyui/output/out.png''), FsExists (JStr ''/comfyui/output''),
       FsListdir ''/comfyui/output'', FsExists (JStr ''/comfyui/output/out.png''),
       FsGetsize ''/comfyui/output/out.png'',
       StorageUpload (JStr ''job-1'') ''/comfyui/output/out.png''])"
  by (simp add: continue_job_def upload_images_def submit_def queue_workflow_def
      await_outputs_def poll.simps get_history_def history_ready_def time_sleep_def
      SLEEP_MAX_MS_def finish_def process_output_files_def scan_outputs_def scan_key_def choose_path_def
      os_path_exists_def deliver_file_def posix_dirname_def posix_join_def Let_def
      down_env_def sample_env_def sample_cfg_def sample_job_def sample_loads_def
      ready_history_def ready_outputs_def ready_body_def)

theorem check_server_probe_witness:
  "check_server waking_env ''http://127.0.0.1:8188'' 500 50 [] =
     (Inr True, [HttpGet ''http://127.0.0.1:8188'', Sleep 50,
                 HttpGet ''http://127.0.0.1:8188'', Sleep 50,
                 HttpGet ''http://127.0.0.1:8188'']) \<and>
   check_server down_env ''http://127.0.0.1:8188'' 2 50 [] =
     (Inr False, [HttpGet ''http://127.0.0.1:8188'', Sleep 50,
                  HttpGet ''http://127.0.0.1:8188'', Sleep 50]) \<and>
   probe_not_ready (requests_get down_env 0 ''http://127.0.0.1:8188'') \<and>
   run_job down_env sample_cfg (sample_job JNull) (JObj []) JNull [] =
     (Inr (JObj [(''status'', JStr ''success''),
                 (''message'', JStr ''https://bucket.example/job-1/out.png''),
                 (''refresh_worker'', JBool False)]),
      concat (replicate (nat COMFY_API_AVAILABLE_MAX_RETRIES)
          [HttpGet (''http://'' @ COMFY_HOST), Sleep COMFY_API_AVAILABLE_INTERVAL_MS]) @
      [HttpPostPrompt (JObj []),
       HttpGetHistory (JStr ''p1''), Sleep 30000, HttpGetHistory (JStr ''p1''), Sleep 30000,
       HttpGetHistory (JStr ''p1''),
       FsExists (JStr ''/comfyui/output/out.png''), FsExists (JStr ''/comfyui/output''),
       FsListdir ''/comfyui/output'', FsExists (JStr ''/comfyui/output/out.png''),
       FsGetsize ''/comfyui/output/out.png'',
       StorageUpload (JStr ''job-1'') ''/comfyui/output/out.png''])"
proof -
  have d: "(0::int) \<le> 50 \<and> 50 \<le> SLEEP_MAX_MS" by (simp add: SLEEP_MAX_MS_def)
  have d': "0 \<le> COMFY_API_AVAILABLE_INTERVAL_MS \<and> COMFY_API_AVAILABLE_INTERVAL_MS \<le> SLEEP_MAX_MS"
    by (simp add: COMFY_API_AVAILABLE_INTERVAL_MS_def SLEEP_MAX_MS_def)
  have down: "\<And>j url. probe_not_ready (requests_get down_env j url)"
    by (simp add: down_env_def sample_env_def probe_not_ready_def)
  have w: "\<forall>j<2. probe_not_ready (requests_get waking_env j ''http://127.0.0.1:8188'')"
    by (simp add: waking_env_def sample_env_def probe_not_ready_def)
  have w2: "requests_get waking_env 2 ''http://127.0.0.1:8188'' = Inr 200"
    by (simp add: waking_env_def sample_env_def)
  have c1: "check_server waking_env ''http://127.0.0.1:8188'' 500 50 [] =
     (Inr True, [] @ concat (replicate 2 [HttpGet ''http://127.0.0.1:8188'', Sleep 50]) @
                [HttpGet ''http://127.0.0.1:8188''])"
    using check_server_probe [OF d, THEN conjunct1, rule_format,
        where k = 2 and retries = 500 and E = waking_env and url = "''http://127.0.0.1:8188''" and evs = "[]"]
      w w2
    by simp
  have c2: "check_server down_env ''http://127.0.0.1:8188'' 2 50 [] =
     (Inr False, [] @ concat (replicate (nat 2) [HttpGet ''http://127.0.0.1:8188'', Sleep 50]))"
    using check_server_probe [OF d, THEN conjunct2, THEN conjunct1, rule_format,
        where retries = 2 and E = down_env and url = "''http://127.0.0.1:8188''" and evs = "[]"]
      down
    by simp
  have c3: "check_server down_env (''http://'' @ COMFY_HOST) COMFY_API_AVAILABLE_MAX_RETRIES
              COMFY_API_AVAILABLE_INTERVAL_MS [] =
     (Inr False, [] @ concat (replicate (nat COMFY_API_AVAILABLE_MAX_RETRIES)
          [HttpGet (''http://'' @ COMFY_HOST), Sleep COMFY_API_AVAILABLE_INTERVAL_MS]))"
    using check_server_probe [OF d', THEN conjunct2, THEN conjunct1, rule_format,
        where retries = COMFY_API_AVAILABLE_MAX_RETRIES and E = down_env
          and url = "''http://'' @ COMFY_HOST" and evs = "[]"]
      down
    by simp
  have c4: "run_job down_env sample_cfg (sample_job JNull) (JObj []) JNull [] =
     continue_job down_env sample_cfg (sample_job JNull) (JObj []) JNull
       (concat (replicate (nat COMFY_API_AVAILABLE_MAX_RETRIES)
          [HttpGet (''http://'' @ COMFY_HOST), Sleep COMFY_API_AVAILABLE_INTERVAL_MS]))"
    using check_server_probe [OF d', THEN conjunct2, THEN conjunct2, THEN conjunct2, rule_format,
        where E = down_env and evsa = "[]" and cfg = sample_cfg and job = "sample_job JNull"
          and workflow = "JObj []" and images = JNull, OF c3]
    by simp
  from c1 have c1': "check_server waking_env ''http://127.0.0.1:8188'' 500 50 [] =
     (Inr True, [HttpGet ''http://127.0.0.1:8188'', Sleep 50,
                 HttpGet ''http://127.0.0.1:8188'', Sleep 50,
                 HttpGet ''http://127.0.0.1:8188''])"
    by (simp add: numeral_2_eq_2)
  from c2 have c2': "check_server down_env ''http://127.0.0.1:8188'' 2 50 [] =
     (Inr False, [HttpGet ''http://127.0.0.1:8188'', Sleep 50,
                  HttpGet ''http://127.0.0.1:8188'', Sleep 50])"
    by (simp add: numeral_2_eq_2)
  show ?thesis using c1' c2' c4 down by (simp add: continue_job_down_env)
qed

section \<open>The completion poller\<close>













section \<open>The aggregation of upload results\<close>

lemma upload_loop_answers:
  "upload_answers E i xs = map Inr as \<Longrightarrow>
   upload_loop E xs i rs es evs =
     (Inr (rs @ map (success_line E) (filter upload_passed as),
           es @ map (error_line E) (filter upload_failed as)),
      evs @ map (\<lambda>a. HttpPostImage (fst a)) as)"
proof (induction xs arbitrary: i rs es evs as)
  case Nil
  then show ?case by simp
next
  case (Cons img rest)
  from Cons.prems obtain a as' where as: "as = a # as'"
    and a: "upload_answer E i img = Inr a" and r: "upload_answers E (Suc i) rest = map Inr as'"
    by (cases as) auto
  obtain name code resp where t: "a = (name, code, resp)" by (cases a) auto
  from a t obtain d blob where
    n: "py_getitem img (JStr ''name'') = Inr name" and
    d: "py_getitem img (JStr ''image'') = Inr d" and
    b: "b64decode E d = Inr blob" and
    p: "requests_post E i name blob = Inr (code, resp)"
    by (auto simp: upload_answer_def split: sum.splits)
  show ?case
  proof (cases "code = 200")
    case True
    then show ?thesis
      using Cons.IH [OF r] by (simp add: as t n d b p upload_passed_def upload_failed_def success_line_def)
  next
    case False
    then show ?thesis
      using Cons.IH [OF r] by (simp add: as t n d b p upload_passed_def upload_failed_def error_line_def)
  qed
qed

lemma filter_passed_all:
  "filter upload_failed as = [] \<Longrightarrow> filter upload_passed as = as"
  by (induction as) (auto simp: upload_failed_def upload_passed_def split: if_splits)

lemma upload_answers_length:
  "upload_answers E i xs = map Inr as \<Longrightarrow> length as = length xs"
proof -
  assume "upload_answers E i xs = map Inr as"
  then have "length (upload_answers E i xs) = length as" by simp
  moreover have "length (upload_answers E i xs) = length xs"
    by (induction xs arbitrary: i) auto
  ultimately show ?thesis by simp
qed

text \<open>
  Claim C6. For a list of images each of which has its two fields, decodes and gets
  an answer to its POST: when no answer has a status other than 200 the outcome has
  status success and \<^verbatim>\<open>details\<close> holds one success string per image, as many as the
  list is long; when some answer has another status the outcome has status error and
  \<^verbatim>\<open>details\<close> holds one error string per failed upload. One POST is made per image.
\<close>

theorem upload_images_outcome:
  assumes "upload_answers E 0 xs = map Inr as"
  shows "upload_images E (JArr xs) evs =
           (Inr (if filter upload_failed as = []
                 then JObj [(''status'', JStr ''success''),
                            (''message'', JStr (if xs = [] then ''No images to upload''
                                                else ''All images uploaded successfully'')),
                            (''details'', JArr (map (success_line E) as))]
                 else JObj [(''status'', JStr ''error''),
                            (''message'', JStr ''Some images failed to upload''),
                            (''details'', JArr (map (error_line E) (filter upload_failed as)))]),
            evs @ map (\<lambda>a. HttpPostImage (fst a)) as) \<and>
         length (map (success_line E) as) = length xs \<and>
         length (map (error_line E) (filter upload_failed as)) = length (filter upload_failed as)"
proof -
  have len: "length as = length xs" using assms by (rule upload_answers_length)
  show ?thesis
  proof (cases "xs = []")
    case True
    with len show ?thesis by (simp add: upload_images_def)
  next
    case False
    note loop = upload_loop_answers [OF assms, of "[]" "[]" evs]
    show ?thesis
    proof (cases "filter upload_failed as = []")
      case True
      with False loop len show ?thesis
        by (simp add: upload_images_def filter_passed_all)
    next
      case nonempty: False
      with False loop len show ?thesis
        by (simp add: upload_images_def)
    qed
  qed
qed

theorem upload_images_outcome_witness:
  "upload_images sample_env (JArr two_images) [] =
     (Inr (JObj [(''status'', JStr ''success''),
                 (''message'', JStr ''All images uploaded successfully''),
                 (''details'', JArr [JStr ''Successfully uploaded a.png'',
                                     JStr ''Successfully uploaded b.png''])]),
      [HttpPostImage (JStr ''a.png''), HttpPostImage (JStr ''b.png'')]) \<and>
   upload_images picky_env (JArr two_images) [] =
     (Inr (JObj [(''status'', JStr ''error''),
                 (''message'', JStr ''Some images failed to upload''),
                 (''details'', JArr [JStr ''Error uploading b.png: disk full''])]),
      [HttpPostImage (JStr ''a.png''), HttpPostImage (JStr ''b.png'')])"
proof -
  have a1: "upload_answers sample_env 0 two_images =
      map Inr [(JStr ''a.png'', 200, ''{}''), (JStr ''b.png'', 200, ''{}'')]"
    by (simp add: two_images_def upload_answer_def sample_env_def sample_b64decode_def)
  have a2: "upload_answers picky_env 0 two_images =
      map Inr [(JStr ''a.png'', 200, ''{}''), (JStr ''b.png'', 500, ''disk full'')]"
    by (simp add: two_images_def upload_answer_def picky_env_def sample_env_def sample_b64decode_def)
  have ne: "two_images \<noteq> []" by (simp add: two_images_def)
  from upload_images_outcome [OF a1, of "[]"] ne
  have r1: "upload_images sample_env (JArr two_images) [] =
     (Inr (JObj [(''status'', JStr ''success''),
                 (''message'', JStr ''All images uploaded successfully''),
                 (''details'', JArr [JStr ''Successfully uploaded a.png'',
                                     JStr ''Successfully uploaded b.png''])]),
      [HttpPostImage (JStr ''a.png''), HttpPostImage (JStr ''b.png'')])"
    by (simp add: upload_failed_def success_line_def)
  from upload_images_outcome [OF a2, of "[]"] ne
  have r2: "upload_images picky_env (JArr two_images) [] =
     (Inr (JObj [(''status'', JStr ''error''),
                 (''message'', JStr ''Some images failed to upload''),
                 (''details'', JArr [JStr ''Error uploading b.png: disk full''])]),
      [HttpPostImage (JStr ''a.png''), HttpPostImage (JStr ''b.png'')])"
    by (simp add: upload_failed_def error_line_def)
  from r1 r2 show ?thesis by simp
qed

section \<open>The scan of the outputs\<close>

lemma last_candidate_append:
  "last_candidate (as @ bs) cand = last_candidate bs (last_candidate as cand)"
  by (simp add: last_candidate_def)

lemma is_str_cases: "is_str v \<Longrightarrow> \<exists>s. v = JStr s"
  by (cases v) simp_all

lemma str_field_value: "str_field kvs key \<Longrightarrow> \<exists>s. map_of kvs key = Some (JStr s)"
  by (auto simp: str_field_def split: option.splits dest: is_str_cases)

lemma wf_entry_fields:
  assumes "wf_entry e"
  obtains kvs a b where "e = JObj kvs" "map_of kvs ''subfolder'' = Some (JStr a)"
    "map_of kvs ''filename'' = Some (JStr b)"
proof -
  from assms obtain kvs where e: "e = JObj kvs" by (cases e) simp_all
  with assms have "str_field kvs ''subfolder''" "str_field kvs ''filename''" by simp_all
  then obtain a b where "map_of kvs ''subfolder'' = Some (JStr a)"
    "map_of kvs ''filename'' = Some (JStr b)"
    using str_field_value by blast
  with e that show thesis by blast
qed

lemma scan_entries_wf:
  "list_all wf_entry es \<Longrightarrow> scan_entries es cand = Inr (last_candidate es cand)"
proof (induction es arbitrary: cand)
  case Nil
  then show ?case by (simp add: last_candidate_def)
next
  case (Cons e es)
  from Cons.prems have e: "wf_entry e" and es: "list_all wf_entry es" by simp_all
  from e obtain kvs a b where kvs: "e = JObj kvs"
    and sf: "map_of kvs ''subfolder'' = Some (JStr a)"
    and fn: "map_of kvs ''filename'' = Some (JStr b)"
    by (rule wf_entry_fields)
  have step: "scan_entries (e # es) cand = scan_entries es (candidate_of e)"
    by (simp add: kvs sf fn candidate_of_def)
  show ?case
    unfolding step Cons.IH [OF es] by (simp add: last_candidate_def)
qed

lemma scan_key_wf:
  assumes "wf_field key kvs"
  shows "scan_key key (JObj kvs) cand = Inr (last_candidate (entries_under key (JObj kvs)) cand)"
proof (cases "map_of kvs key")
  case None
  then have "key \<notin> fst ` set kvs" by (simp add: map_of_eq_None_iff)
  with None show ?thesis
    by (simp add: scan_key_def last_candidate_def)
next
  case (Some v)
  then have mem: "key \<in> fst ` set kvs" by (metis map_of_eq_None_iff option.distinct(1))
  from assms Some have "is_entry_list v" by (simp add: wf_field_def)
  then obtain es where v: "v = JArr es" and wf: "list_all wf_entry es"
    by (cases v) simp_all
  from Some mem v show ?thesis
    by (simp add: scan_key_def scan_entries_wf [OF wf])
qed

lemma scan_nodes_wf:
  "list_all (\<lambda>kv. wf_node (snd kv)) nodes \<Longrightarrow>
   scan_nodes nodes cand = Inr (last_candidate (entries_in_order nodes) cand)"
proof (induction nodes arbitrary: cand)
  case Nil
  then show ?case by (simp add: entries_in_order_def last_candidate_def)
next
  case (Cons kv nodes)
  obtain node_id node_output where kv: "kv = (node_id, node_output)" by (cases kv) auto
  from Cons.prems kv have n: "wf_node node_output"
    and rest: "list_all (\<lambda>kv. wf_node (snd kv)) nodes" by simp_all
  from n obtain kvs where o: "node_output = JObj kvs"
    and i: "wf_field ''images'' kvs" and g: "wf_field ''gifs'' kvs"
    by (cases node_output) simp_all
  have split_entries: "entries_in_order (kv # nodes) =
      (entries_under ''images'' (JObj kvs) @ entries_under ''gifs'' (JObj kvs)) @ entries_in_order nodes"
    by (simp add: entries_in_order_def kv o)
  show ?case
    unfolding split_entries last_candidate_append
    by (simp add: kv o scan_key_wf [OF i] scan_key_wf [OF g] Cons.IH [OF rest])
qed

lemma candidate_of_wf: "wf_entry e \<Longrightarrow> \<exists>s. fst (candidate_of e) = JStr s"
  by (erule wf_entry_fields) (simp add: candidate_of_def)

lemma entries_in_order_wf:
  "list_all (\<lambda>kv. wf_node (snd kv)) nodes \<Longrightarrow> list_all wf_entry (entries_in_order nodes)"
proof (induction nodes)
  case Nil
  then show ?case by (simp add: entries_in_order_def)
next
  case (Cons kv nodes)
  then have n: "wf_node (snd kv)" and IH: "list_all wf_entry (entries_in_order nodes)" by simp_all
  have under: "list_all wf_entry (entries_under key (snd kv))" if "wf_field key kvs" "snd kv = JObj kvs"
    for key kvs
  proof (cases "map_of kvs key")
    case None
    with that show ?thesis by simp
  next
    case (Some v)
    with that have "is_entry_list v" by (simp add: wf_field_def)
    with Some that show ?thesis by (cases v) simp_all
  qed
  from n obtain kvs where "snd kv = JObj kvs" "wf_field ''images'' kvs" "wf_field ''gifs'' kvs"
    by (cases "snd kv") simp_all
  then have "list_all wf_entry (entries_under ''images'' (snd kv))"
    and "list_all wf_entry (entries_under ''gifs'' (snd kv))"
    using under by blast+
  with IH show ?case by (simp add: entries_in_order_def)
qed

text \<open>
  Claim C3. For outputs whose node outputs are well formed, the candidate the scan
  ends with is the one of the last entry in mapping order, the entries of a node
  under \<^verbatim>\<open>images\<close> coming before those under \<^verbatim>\<open>gifs\<close>, with that entry's own full path
  (None when it has none). With no entry at all the resolver returns the
  \<^verbatim>\<open>No output file found\<close> payload and the log is unchanged: neither the filesystem nor
  the storage upload is consulted. With an entry, the resolver goes on to the path
  choice with the constructed path of that candidate.
\<close>

theorem scan_outputs_last_entry_wins:
  assumes "list_all (\<lambda>kv. wf_node (snd kv)) nodes"
  shows "scan_outputs (JObj nodes) =
           Inr (if entries_in_order nodes = [] then (JNull, JNull)
                else candidate_of (last (entries_in_order nodes))) \<and>
         (entries_in_order nodes = [] \<longrightarrow>
            process_output_files E cfg (JObj nodes) job_id evs =
              (Inr (JObj [(''status'', JStr ''error''),
                          (''message'', JStr ''No output file found in the generation results'')]), evs)) \<and>
         (entries_in_order nodes \<noteq> [] \<longrightarrow>
            (\<exists>output_file. fst (candidate_of (last (entries_in_order nodes))) = JStr output_file \<and>
              process_output_files E cfg (JObj nodes) job_id evs =
                (case choose_path E (COMFY_OUTPUT_PATH cfg @ ''/'' @ output_file)
                        (snd (candidate_of (last (entries_in_order nodes)))) evs of
                   (Inl e, evs1) \<Rightarrow> (Inl e, evs1)
                 | (Inr local_file_path, evs1) \<Rightarrow> deliver_file E job_id local_file_path evs1)))"
proof -
  have scan: "scan_outputs (JObj nodes) = Inr (last_candidate (entries_in_order nodes) (JNull, JNull))"
    by (simp add: scan_outputs_def scan_nodes_wf [OF assms])
  have c1: "scan_outputs (JObj nodes) =
           Inr (if entries_in_order nodes = [] then (JNull, JNull)
                else candidate_of (last (entries_in_order nodes)))"
    unfolding scan by (simp add: last_candidate_def)
  have c2: "entries_in_order nodes = [] \<longrightarrow>
            process_output_files E cfg (JObj nodes) job_id evs =
              (Inr (JObj [(''status'', JStr ''error''),
                          (''message'', JStr ''No output file found in the generation results'')]), evs)"
    by (simp add: process_output_files_def c1)
  have c3: "entries_in_order nodes \<noteq> [] \<longrightarrow>
            (\<exists>output_file. fst (candidate_of (last (entries_in_order nodes))) = JStr output_file \<and>
              process_output_files E cfg (JObj nodes) job_id evs =
                (case choose_path E (COMFY_OUTPUT_PATH cfg @ ''/'' @ output_file)
                        (snd (candidate_of (last (entries_in_order nodes)))) evs of
                   (Inl e, evs1) \<Rightarrow> (Inl e, evs1)
                 | (Inr local_file_path, evs1) \<Rightarrow> deliver_file E job_id local_file_path evs1))"
  proof
    assume ne: "entries_in_order nodes \<noteq> []"
    have "wf_entry (last (entries_in_order nodes))"
      using entries_in_order_wf [OF assms] ne by (simp add: list_all_iff)
    then obtain s where s: "fst (candidate_of (last (entries_in_order nodes))) = JStr s"
      using candidate_of_wf by blast
    then obtain fp where c: "candidate_of (last (entries_in_order nodes)) = (JStr s, fp)"
      by (cases "candidate_of (last (entries_in_order nodes))") auto
    show "\<exists>output_file. fst (candidate_of (last (entries_in_order nodes))) = JStr output_file \<and>
              process_output_files E cfg (JObj nodes) job_id evs =
                (case choose_path E (COMFY_OUTPUT_PATH cfg @ ''/'' @ output_file)
                        (snd (candidate_of (last (entries_in_order nodes)))) evs of
                   (Inl e, evs1) \<Rightarrow> (Inl e, evs1)
                 | (Inr local_file_path, evs1) \<Rightarrow> deliver_file E job_id local_file_path evs1)"
      using ne by (intro exI [of _ s]) (simp add: process_output_files_def c1 c)
  qed
  from c1 c2 c3 show ?thesis by blast
qed

theorem scan_outputs_last_entry_wins_witness:
  "entries_in_order mixed_outputs =
     [JObj [(''filename'', JStr ''a.png''), (''subfolder'', JStr [])],
      JObj [(''filename'', JStr ''b.gif''), (''subfolder'', JStr ''clips'')],
      JObj [(''filename'', JStr ''c.mp4''), (''subfolder'', JStr ''clips''),
            (''fullpath'', JStr ''/data/clips/c.mp4'')]] \<and>
   scan_outputs (JObj mixed_outputs) = Inr (JStr ''clips/c.mp4'', JStr ''/data/clips/c.mp4'') \<and>
   entries_in_order text_outputs = [] \<and>
   scan_outputs (JObj text_outputs) = Inr (JNull, JNull) \<and>
   process_output_files sample_env sample_cfg (JObj text_outputs) (JStr ''job-1'') [] =
     (Inr (JObj [(''status'', JStr ''error''),
                 (''message'', JStr ''No output file found in the generation results'')]), [])"
proof -
  have wf1: "list_all (\<lambda>kv. wf_node (snd kv)) mixed_outputs"
    by (simp add: mixed_outputs_def wf_field_def str_field_def)
  have wf2: "list_all (\<lambda>kv. wf_node (snd kv)) text_outputs"
    by (simp add: text_outputs_def wf_field_def)
  have e1: "entries_in_order mixed_outputs =
     [JObj [(''filename'', JStr ''a.png''), (''subfolder'', JStr [])],
      JObj [(''filename'', JStr ''b.gif''), (''subfolder'', JStr ''clips'')],
      JObj [(''filename'', JStr ''c.mp4''), (''subfolder'', JStr ''clips''),
            (''fullpath'', JStr ''/data/clips/c.mp4'')]]"
    by (simp add: mixed_outputs_def entries_in_order_def)
  have e2: "entries_in_order text_outputs = []"
    by (simp add: text_outputs_def entries_in_order_def)
  note t1 = scan_outputs_last_entry_wins [OF wf1, of sample_env sample_cfg "JStr ''job-1''" "[]"]
  note t2 = scan_outputs_last_entry_wins [OF wf2, of sample_env sample_cfg "JStr ''job-1''" "[]"]
  from t1 have s1: "scan_outputs (JObj mixed_outputs) =
      Inr (JStr ''clips/c.mp4'', JStr ''/data/clips/c.mp4'')"
    by (simp add: e1 candidate_of_def posix_join_def)
  from t2 have s2: "scan_outputs (JObj text_outputs) = Inr (JNull, JNull)"
    by (simp add: e2)
  from t2 have p2: "process_output_files sample_env sample_cfg (JObj text_outputs) (JStr ''job-1'') [] =
     (Inr (JObj [(''status'', JStr ''error''),
                 (''message'', JStr ''No output file found in the generation results'')]), [])"
    by (simp add: e2)
  from e1 s1 e2 s2 p2 show ?thesis by simp
qed

section \<open>The shape of the job result\<close>

lemma validate_parsed_error_is_str:
  "validate_parsed v = Inr (d, err) \<Longrightarrow> truthy err \<Longrightarrow> is_str err"
  by (auto simp: validate_parsed_def split: sum.splits if_splits json.splits)

lemma validate_input_error_is_str:
  "validate_input E v = Inr (d, err) \<Longrightarrow> truthy err \<Longrightarrow> is_str err"
  by (auto simp: validate_input_def split: sum.splits if_splits json.splits
      dest: validate_parsed_error_is_str)

lemma upload_loop_errors_are_str:
  "upload_loop E xs i rs es evs = (Inr (rs', es'), evs') \<Longrightarrow> list_all is_str es \<Longrightarrow>
   list_all is_str es'"
proof (induction xs arbitrary: i rs es evs)
  case Nil
  then show ?case by simp
next
  case (Cons img rest)
  from Cons.prems show ?case
    by (auto simp: Let_def split: sum.splits prod.splits if_splits dest!: Cons.IH)
qed

lemma upload_images_error_shape:
  assumes "upload_images E images evs = (Inr u, evs')"
    and "py_getitem u (JStr ''status'') = Inr st" and "py_eq st (JStr ''error'')"
  shows "upload_error_shape u"
proof (cases "truthy images")
  case False
  with assms show ?thesis by (auto simp: upload_images_def)
next
  case True
  with assms(1) obtain xs rs es evs1 where
    loop: "upload_loop E xs 0 [] [] evs = (Inr (rs, es), evs1)"
    and u: "u = (if es \<noteq> []
                 then JObj [(''status'', JStr ''error''),
                            (''message'', JStr ''Some images failed to upload''),
                            (''details'', JArr es)]
                 else JObj [(''status'', JStr ''success''),
                            (''message'', JStr ''All images uploaded successfully''),
                            (''details'', JArr rs)])"
    by (auto simp: upload_images_def split: sum.splits prod.splits if_splits)
  have "list_all is_str es" using upload_loop_errors_are_str [OF loop] by simp
  with u assms(2,3) show ?thesis by (auto split: if_splits)
qed

lemma deliver_file_shape:
  "deliver_file E job_id p evs = (Inr r, evs') \<Longrightarrow>
   \<exists>s m. r = JObj [(''status'', JStr s), (''message'', JStr m)] \<and> (s = ''success'' \<or> s = ''error'')"
  by (auto simp: deliver_file_def Let_def split: json.splits sum.splits prod.splits if_splits)

lemma process_output_files_shape:
  "process_output_files E cfg outputs job_id evs = (Inr r, evs') \<Longrightarrow>
   \<exists>s m. r = JObj [(''status'', JStr s), (''message'', JStr m)] \<and> (s = ''success'' \<or> s = ''error'')"
  by (auto simp: process_output_files_def split: sum.splits prod.splits if_splits
      dest: deliver_file_shape)

lemma finish_shape:
  "finish E cfg job prompt_id history evs = (Inr r, evs') \<Longrightarrow> final_shape r"
proof -
  assume a: "finish E cfg job prompt_id history evs = (Inr r, evs')"
  then obtain outputs job_id kvs evs1 where
    p: "process_output_files E cfg outputs job_id evs = (Inr (JObj kvs), evs1)"
    and r: "r = JObj (dict_set ''refresh_worker'' (JBool (REFRESH_WORKER cfg)) kvs)"
    by (auto simp: finish_def split: sum.splits prod.splits json.splits)
  from process_output_files_shape [OF p] r show ?thesis by auto
qed

lemma await_outputs_shape:
  "await_outputs E cfg prompt_id evs = (Inl r, evs') \<Longrightarrow> error_shape r"
  by (auto simp: await_outputs_def split: sum.splits prod.splits option.splits)

lemma continue_job_shape:
  assumes "continue_job E cfg job workflow images evs = (Inr r, evs')"
  shows "\<exists>u evs1. upload_images E images evs = (Inr u, evs1) \<and>
           (if has_status_error u then r = u \<and> evs' = evs1
            else final_shape r \<or> error_shape r)"
proof -
  from assms obtain u evs1 st where
    up: "upload_images E images evs = (Inr u, evs1)"
    and st: "py_getitem u (JStr ''status'') = Inr st"
    by (auto simp: continue_job_def split: sum.splits prod.splits)
  have "if has_status_error u then r = u \<and> evs' = evs1 else final_shape r \<or> error_shape r"
  proof (cases "py_eq st (JStr ''error'')")
    case True
    with assms up st show ?thesis by (simp add: continue_job_def has_status_error_def)
  next
    case False
    with assms up st have "final_shape r \<or> error_shape r"
      by (auto simp: continue_job_def split: sum.splits prod.splits
          dest: finish_shape await_outputs_shape)
    with False st show ?thesis by (simp add: has_status_error_def)
  qed
  with up show ?thesis by blast
qed

lemma upload_error_shape_apart:
  "upload_error_shape r \<Longrightarrow> \<not> final_shape r \<and> \<not> error_shape r"
  by (erule upload_error_shape.elims) auto

lemma handler_returns_upload_error:
  assumes "upload_outcome E job evs = Some (u, evs1)" and "has_status_error u"
  shows "handler E cfg job evs = (Inr u, evs1) \<and> upload_error_shape u"
proof -
  from assms(1) obtain job_input d err workflow images b evs0 where
    i: "py_getitem job (JStr ''input'') = Inr job_input"
    and v: "validate_input E job_input = Inr (d, err)" and f: "\<not> truthy err"
    and w: "py_getitem d (JStr ''workflow'') = Inr workflow"
    and g: "py_get d ''images'' = Inr images"
    and c: "check_server E (''http://'' @ COMFY_HOST) COMFY_API_AVAILABLE_MAX_RETRIES
              COMFY_API_AVAILABLE_INTERVAL_MS evs = (Inr b, evs0)"
    and up: "upload_images E images evs0 = (Inr u, evs1)"
    by (auto simp: upload_outcome_def split: sum.splits prod.splits if_splits)
  from assms(2) obtain st where st: "py_getitem u (JStr ''status'') = Inr st"
    and e: "py_eq st (JStr ''error'')"
    by (auto simp: has_status_error_def split: sum.splits)
  have "handler E cfg job evs = (Inr u, evs1)"
    using c by (simp add: handler_def run_job_def continue_job_def i v f w g up st e)
  with upload_images_error_shape [OF up st e] show ?thesis by simp
qed

lemma handler_two_shapes:
  assumes "handler E cfg job evs = (Inr r, evs')" and "\<not> upload_reports_error E job evs"
  shows "final_shape r \<or> error_shape r"
proof -
  from assms(1) obtain job_input d err where
    i: "py_getitem job (JStr ''input'') = Inr job_input"
    and v: "validate_input E job_input = Inr (d, err)"
    by (auto simp: handler_def split: sum.splits prod.splits)
  show ?thesis
  proof (cases "truthy err")
    case True
    with assms(1) i v have "r = JObj [(''error'', err)]" by (simp add: handler_def)
    with validate_input_error_is_str [OF v True] show ?thesis by simp
  next
    case False
    with assms(1) i v obtain workflow images b evs0 where
      w: "py_getitem d (JStr ''workflow'') = Inr workflow"
      and g: "py_get d ''images'' = Inr images"
      and c: "check_server E (''http://'' @ COMFY_HOST) COMFY_API_AVAILABLE_MAX_RETRIES
                COMFY_API_AVAILABLE_INTERVAL_MS evs = (Inr b, evs0)"
      and k: "continue_job E cfg job workflow images evs0 = (Inr r, evs')"
      by (auto simp: handler_def run_job_def split: sum.splits prod.splits)
    from continue_job_shape [OF k] obtain u evs1 where
      up: "upload_images E images evs0 = (Inr u, evs1)"
      and sh: "if has_status_error u then r = u \<and> evs' = evs1 else final_shape r \<or> error_shape r"
      by blast
    have "upload_outcome E job evs = Some (u, evs1)"
      using c by (simp add: upload_outcome_def i v False w g up)
    with assms(2) have "\<not> has_status_error u" by (simp add: upload_reports_error_def)
    with sh show ?thesis by simp
  qed
qed

text \<open>
  Claim C5, as amended. When the image upload outcome of the job has status error,
  the handler returns that outcome itself, with no further call: it is
  \<^verbatim>\<open>{status: "error", message: "Some images failed to upload", details: [str, ...]}\<close>, which
  has \<^verbatim>\<open>details\<close>, no \<^verbatim>\<open>refresh_worker\<close> field, and neither of the two shapes. In every
  other case in which the handler returns, the result is
  \<^verbatim>\<open>{status: "success"|"error", message: str, refresh_worker: bool}\<close> or \<^verbatim>\<open>{error: str}\<close>.
\<close>

theorem handler_result_shapes:
  "(\<forall>u evs1. upload_outcome E job evs = Some (u, evs1) \<and> has_status_error u
      \<longrightarrow> handler E cfg job evs = (Inr u, evs1) \<and> upload_error_shape u \<and>
          \<not> final_shape u \<and> \<not> error_shape u) \<and>
   (\<forall>r evs'. handler E cfg job evs = (Inr r, evs') \<and> \<not> upload_reports_error E job evs
      \<longrightarrow> final_shape r \<or> error_shape r)"
proof -
  have first: "\<forall>u evs1. upload_outcome E job evs = Some (u, evs1) \<and> has_status_error u
      \<longrightarrow> handler E cfg job evs = (Inr u, evs1) \<and> upload_error_shape u \<and>
          \<not> final_shape u \<and> \<not> error_shape u"
  proof (intro allI impI)
    fix u evs1
    assume a: "upload_outcome E job evs = Some (u, evs1) \<and> has_status_error u"
    then have "handler E cfg job evs = (Inr u, evs1) \<and> upload_error_shape u"
      using handler_returns_upload_error by blast
    then show "handler E cfg job evs = (Inr u, evs1) \<and> upload_error_shape u \<and>
        \<not> final_shape u \<and> \<not> error_shape u"
      using upload_error_shape_apart by blast
  qed
  have second: "\<forall>r evs'. handler E cfg job evs = (Inr r, evs') \<and> \<not> upload_reports_error E job evs
      \<longrightarrow> final_shape r \<or> error_shape r"
    using handler_two_shapes by blast
  from first second show ?thesis by (rule conjI)
qed

theorem handler_result_shapes_witness:
  "upload_outcome refusing_env
     (sample_job (JObj [(''workflow'', JObj [(''3'', JObj [])]),
                        (''images'', JArr [JObj [(''name'', JStr ''b.png''), (''image'', JStr ''AAAA'')]])])) []
   = Some (JObj [(''status'', JStr ''error''),
                 (''message'', JStr ''Some images failed to upload''),
                 (''details'', JArr [JStr ''Error uploading b.png: disk full''])],
           [HttpGet ''http://127.0.0.1:8188'', HttpPostImage (JStr ''b.png'')]) \<and>
   handler refusing_env sample_cfg
     (sample_job (JObj [(''workflow'', JObj [(''3'', JObj [])]),
                        (''images'', JArr [JObj [(''name'', JStr ''b.png''), (''image'', JStr ''AAAA'')]])])) []
   = (Inr (JObj [(''status'', JStr ''error''),
                 (''message'', JStr ''Some images failed to upload''),
                 (''details'', JArr [JStr ''Error uploading b.png: disk full''])]),
      [HttpGet ''http://127.0.0.1:8188'', HttpPostImage (JStr ''b.png'')]) \<and>
   handler sample_env sample_cfg (sample_job (JObj [(''workflow'', JObj [(''3'', JObj [])])])) [] =
     (Inr (JObj [(''status'', JStr ''success''),
                 (''message'', JStr ''https://bucket.example/job-1/out.png''),
                 (''refresh_worker'', JBool False)]),
      [HttpGet ''http://127.0.0.1:8188'', HttpPostPrompt (JObj [(''3'', JObj [])]),
       HttpGetHistory (JStr ''p1''), Sleep 30000, HttpGetHistory (JStr ''p1''), Sleep 30000,
       HttpGetHistory (JStr ''p1''),
       FsExists (JStr ''/comfyui/output/out.png''), FsExists (JStr ''/comfyui/output''),
       FsListdir ''/comfyui/output'', FsExists (JStr ''/comfyui/output/out.png''),
       FsGetsize ''/comfyui/output/out.png'',
       StorageUpload (JStr ''job-1'') ''/comfyui/output/out.png'']) \<and>
   (final_shape (JObj [(''status'', JStr ''success''),
                 (''message'', JStr ''https://bucket.example/job-1/out.png''),
                 (''refresh_worker'', JBool False)]) \<or>
    error_shape (JObj [(''status'', JStr ''success''),
                 (''message'', JStr ''https://bucket.example/job-1/out.png''),
                 (''refresh_worker'', JBool False)]))"
proof -
  have out: "upload_outcome refusing_env
     (sample_job (JObj [(''workflow'', JObj [(''3'', JObj [])]),
                        (''images'', JArr [JObj [(''name'', JStr ''b.png''), (''image'', JStr ''AAAA'')]])])) []
   = Some (JObj [(''status'', JStr ''error''),
                 (''message'', JStr ''Some images failed to upload''),
                 (''details'', JArr [JStr ''Error uploading b.png: disk full''])],
           [HttpGet ''http://127.0.0.1:8188'', HttpPostImage (JStr ''b.png'')])"
    by code_simp
  have err: "has_status_error (JObj [(''status'', JStr ''error''),
                 (''message'', JStr ''Some images failed to upload''),
                 (''details'', JArr [JStr ''Error uploading b.png: disk full''])])"
    by (simp add: has_status_error_def)
  have refused: "handler refusing_env sample_cfg
     (sample_job (JObj [(''workflow'', JObj [(''3'', JObj [])]),
                        (''images'', JArr [JObj [(''name'', JStr ''b.png''), (''image'', JStr ''AAAA'')]])])) []
   = (Inr (JObj [(''status'', JStr ''error''),
                 (''message'', JStr ''Some images failed to upload''),
                 (''details'', JArr [JStr ''Error uploading b.png: disk full''])]),
      [HttpGet ''http://127.0.0.1:8188'', HttpPostImage (JStr ''b.png'')])"
    using handler_result_shapes [THEN conjunct1, rule_format, OF conjI, OF out err, of sample_cfg]
    by (rule conjunct1)
  have run: "handler sample_env sample_cfg (sample_job (JObj [(''workflow'', JObj [(''3'', JObj [])])])) [] =
     (Inr (JObj [(''status'', JStr ''success''),
                 (''message'', JStr ''https://bucket.example/job-1/out.png''),
                 (''refresh_worker'', JBool False)]),
      [HttpGet ''http://127.0.0.1:8188'', HttpPostPrompt (JObj [(''3'', JObj [])]),
       HttpGetHistory (JStr ''p1''), Sleep 30000, HttpGetHistory (JStr ''p1''), Sleep 30000,
       HttpGetHistory (JStr ''p1''),
       FsExists (JStr ''/comfyui/output/out.png''), FsExists (JStr ''/comfyui/output''),
       FsListdir ''/comfyui/output'', FsExists (JStr ''/comfyui/output/out.png''),
       FsGetsize ''/comfyui/output/out.png'',
       StorageUpload (JStr ''job-1'') ''/comfyui/output/out.png''])"
    by code_simp
  have quiet: "\<not> upload_reports_error sample_env
      (sample_job (JObj [(''workflow'', JObj [(''3'', JObj [])])])) []"
    by code_simp
  have shape: "final_shape (JObj [(''status'', JStr ''success''),
                 (''message'', JStr ''https://bucket.example/job-1/out.png''),
                 (''refresh_worker'', JBool False)]) \<or>
    error_shape (JObj [(''status'', JStr ''success''),
                 (''message'', JStr ''https://bucket.example/job-1/out.png''),
                 (''refresh_worker'', JBool False)])"
    using handler_result_shapes [THEN conjunct2, rule_format, OF conjI, OF run quiet] .
  from out refused run shape show ?thesis by (intro conjI)
qed

text \<open>
  The claim as stated, with two shapes only, fails on a job whose image the backend
  refuses with status 500: the handler returns the upload outcome, which is neither.
\<close>

theorem handler_upload_error_result_counterexample:
  "handler refusing_env sample_cfg
     (sample_job (JObj [(''workflow'', JObj [(''3'', JObj [])]),
                        (''images'', JArr [JObj [(''name'', JStr ''a.png''), (''image'', JStr ''AAAA'')]])])) []
   = (Inr (JObj [(''status'', JStr ''error''),
                 (''message'', JStr ''Some images failed to upload''),
                 (''details'', JArr [JStr ''Error uploading a.png: disk full''])]),
      [HttpGet ''http://127.0.0.1:8188'', HttpPostImage (JStr ''a.png'')]) \<and>
   \<not> final_shape (JObj [(''status'', JStr ''error''),
                 (''message'', JStr ''Some images failed to upload''),
                 (''details'', JArr [JStr ''Error uploading a.png: disk full''])]) \<and>
   \<not> error_shape (JObj [(''status'', JStr ''error''),
                 (''message'', JStr ''Some images failed to upload''),
                 (''details'', JArr [JStr ''Error uploading a.png: disk full''])])"
  by code_simp

end
